theory Spec2Isabelle
  imports Main
begin

section \<open>JavaScript primitives used by the builders\<close>

text \<open>
  The builders only assemble text. What they need from the language is: numbers and
  their conversion to text (\<open>Number::toString\<close>, used by template literals and by
  \<open>toString()\<close>), the conversion of a string to a number (\<open>Number(s)\<close>),
  \<open>Number.isNaN\<close>, truthiness (\<open>Boolean\<close>) and \<open>Array.prototype.join\<close>.

  A number is \<open>NaN\<close>, an infinity, or a finite decimal \<open>Finite m e\<close> standing for
  \<open>m * 10^e\<close>. The decimal value is kept exactly: the rounding of a literal to the
  nearest double is not modelled, so the model agrees with the language on the literals
  a double represents faithfully (up to 15 significant digits, within the double range).
  Negative zero is not distinguished from zero: \<open>===\<close>, \<open>Number.isNaN\<close>,
  \<open>Boolean\<close> and the conversion to text all treat the two alike.
  Strings are ASCII text.
\<close>

datatype jsnum = NaN | PosInfinity | NegInfinity | Finite int int

fun isNaN :: "jsnum \<Rightarrow> bool" where
  "isNaN NaN = True"
| "isNaN _ = False"

fun isFinite :: "jsnum \<Rightarrow> bool" where
  "isFinite (Finite m e) = True"
| "isFinite _ = False"

text \<open>\<open>x === 0\<close> on a number.\<close>

fun isZero :: "jsnum \<Rightarrow> bool" where
  "isZero (Finite m e) = (m = 0)"
| "isZero _ = False"

definition num :: "int \<Rightarrow> jsnum" where
  "num i = Finite i 0"

subsection \<open>Number to text\<close>

definition digitChar :: "nat \<Rightarrow> char" where
  "digitChar d = ''0123456789'' ! d"

function digitsOf :: "nat \<Rightarrow> string" where
  "digitsOf n = (if n < 10 then [digitChar n] else digitsOf (n div 10) @ [digitChar (n mod 10)])"
  by pat_completeness auto
termination
  by (relation "measure id") auto

function stripZeros :: "nat \<Rightarrow> int \<Rightarrow> nat \<times> int" where
  "stripZeros s e = (if s \<noteq> 0 \<and> s mod 10 = 0 then stripZeros (s div 10) (e + 1) else (s, e))"
  by pat_completeness auto
termination
  by (relation "measure fst") auto

text \<open>
  \<open>Number::toString\<close> of a positive finite number \<open>s * 10^e\<close>: with \<open>k\<close> the
  number of digits of \<open>s\<close> (trailing zeros removed) and \<open>n\<close> the position of the
  decimal point, the cases are those of the language definition.
\<close>

definition positiveToString :: "nat \<Rightarrow> int \<Rightarrow> string" where
  "positiveToString s e =
     (case stripZeros s e of (s', e') \<Rightarrow>
        let ds = digitsOf s'; k = int (length ds); n = k + e' in
        if k \<le> n \<and> n \<le> 21 then ds @ replicate (nat (n - k)) (CHR ''0'')
        else if 0 < n \<and> n \<le> 21 then take (nat n) ds @ ''.'' @ drop (nat n) ds
        else if - 6 < n \<and> n \<le> 0 then ''0.'' @ replicate (nat (- n)) (CHR ''0'') @ ds
        else
          let sg = (if 0 < n - 1 then ''+'' else ''-''); ex = digitsOf (nat \<bar>n - 1\<bar>) in
          if k = 1 then ds @ ''e'' @ sg @ ex
          else take 1 ds @ ''.'' @ drop 1 ds @ ''e'' @ sg @ ex)"

fun numberToString :: "jsnum \<Rightarrow> string" where
  "numberToString NaN = ''NaN''"
| "numberToString PosInfinity = ''Infinity''"
| "numberToString NegInfinity = ''-Infinity''"
| "numberToString (Finite m e) =
     (if m = 0 then ''0''
      else if m < 0 then ''-'' @ positiveToString (nat (- m)) e
      else positiveToString (nat m) e)"

subsection \<open>Text to number\<close>

definition isWhiteSpace :: "char \<Rightarrow> bool" where
  "isWhiteSpace c = (c \<in> set [CHR 0x09, CHR 0x0A, CHR 0x0B, CHR 0x0C, CHR 0x0D, CHR '' ''])"

definition trim :: "string \<Rightarrow> string" where
  "trim s = rev (dropWhile isWhiteSpace (rev (dropWhile isWhiteSpace s)))"

text \<open>The value of a digit in a digit alphabet: its position there.\<close>

definition digitIn :: "string \<Rightarrow> char \<Rightarrow> nat" where
  "digitIn alphabet c = length (takeWhile (\<lambda>d. d \<noteq> c) alphabet)"

definition isDigit :: "char \<Rightarrow> bool" where
  "isDigit c = (c \<in> set ''0123456789'')"

definition digitsValue :: "nat \<Rightarrow> string \<Rightarrow> string \<Rightarrow> nat" where
  "digitsValue radix alphabet ds = foldl (\<lambda>a c. radix * a + digitIn alphabet c) 0 ds"

definition decimalValue :: "string \<Rightarrow> nat" where
  "decimalValue ds = digitsValue 10 ''0123456789'' ds"

text \<open>\<open>ExponentPart\<close> without its \<open>e\<close>: an optional sign and at least one digit.\<close>

definition exponentPart :: "string \<Rightarrow> int option" where
  "exponentPart s =
     (let (neg, ds) = (case s of
                         c # r \<Rightarrow> if c = CHR ''-'' then (True, r)
                                  else if c = CHR ''+'' then (False, r) else (False, s)
                       | [] \<Rightarrow> (False, s))
      in if ds \<noteq> [] \<and> list_all isDigit ds
         then Some (if neg then - int (decimalValue ds) else int (decimalValue ds))
         else None)"

text \<open>
  \<open>StrUnsignedDecimalLiteral\<close> other than \<open>Infinity\<close>: digits, an optional fraction
  and an optional exponent, with a digit on at least one side of the point. The result
  is the mantissa and the decimal exponent.
\<close>

definition unsignedDecimal :: "string \<Rightarrow> (nat \<times> int) option" where
  "unsignedDecimal s =
     (let ip = takeWhile isDigit s; r1 = dropWhile isDigit s;
          hasDot = (r1 \<noteq> [] \<and> hd r1 = CHR ''.'');
          fp = (if hasDot then takeWhile isDigit (tl r1) else []);
          r2 = (if hasDot then dropWhile isDigit (tl r1) else r1)
      in if ip = [] \<and> fp = [] then None
         else if r2 = [] then Some (decimalValue (ip @ fp), - int (length fp))
         else if hd r2 = CHR ''e'' \<or> hd r2 = CHR ''E'' then
           (case exponentPart (tl r2) of
              None \<Rightarrow> None
            | Some x \<Rightarrow> Some (decimalValue (ip @ fp), x - int (length fp)))
         else None)"

definition signedDecimal :: "string \<Rightarrow> jsnum" where
  "signedDecimal s =
     (let neg = (s \<noteq> [] \<and> hd s = CHR ''-'');
          u = (if s \<noteq> [] \<and> (hd s = CHR ''-'' \<or> hd s = CHR ''+'') then tl s else s)
      in if u = ''Infinity'' then (if neg then NegInfinity else PosInfinity)
         else (case unsignedDecimal u of
                 None \<Rightarrow> NaN
               | Some (m, e) \<Rightarrow> Finite (if neg then - int m else int m) e))"

text \<open>\<open>NonDecimalIntegerLiteral\<close>: \<open>0x\<close>, \<open>0o\<close> or \<open>0b\<close> and digits of that radix; no sign.\<close>

definition radixDigits :: "nat \<Rightarrow> string \<Rightarrow> string \<Rightarrow> string \<Rightarrow> jsnum" where
  "radixDigits radix lower upper ds =
     (if ds \<noteq> [] \<and> list_all (\<lambda>c. c \<in> set lower \<or> c \<in> set upper) ds
      then Finite (int (foldl (\<lambda>a c. radix * a +
                     (if c \<in> set lower then digitIn lower c else digitIn upper c)) 0 ds)) 0
      else NaN)"

text \<open>\<open>Number(s)\<close> for a string \<open>s\<close> (\<open>StringToNumber\<close>).\<close>

definition stringToNumber :: "string \<Rightarrow> jsnum" where
  "stringToNumber s =
     (let t = trim s in
      if t = [] then Finite 0 0
      else if take 2 t = ''0x'' \<or> take 2 t = ''0X''
        then radixDigits 16 ''0123456789abcdef'' ''0123456789ABCDEF'' (drop 2 t)
      else if take 2 t = ''0o'' \<or> take 2 t = ''0O''
        then radixDigits 8 ''01234567'' ''01234567'' (drop 2 t)
      else if take 2 t = ''0b'' \<or> take 2 t = ''0B''
        then radixDigits 2 ''01'' ''01'' (drop 2 t)
      else signedDecimal t)"

subsection \<open>Joining\<close>

text \<open>\<open>Array.prototype.join\<close> on an array of strings.\<close>

fun join :: "string \<Rightarrow> string list \<Rightarrow> string" where
  "join sep [] = []"
| "join sep [x] = x"
| "join sep (x # y # ys) = x @ sep @ join sep (y # ys)"

section \<open>The expression builder (class \<open>Calc\<close>)\<close>

datatype Operator = Plus | Minus | Times | Divide

fun operatorText :: "Operator \<Rightarrow> string" where
  "operatorText Plus = ''+''"
| "operatorText Minus = ''-''"
| "operatorText Times = ''*''"
| "operatorText Divide = ''/''"

text \<open>The function name of a node: \<open>'calc' | NonCalcFunctions\<close>.\<close>

datatype FnName = F_calc
  | F_min
  | F_max
  | F_clamp
  | F_acos
  | F_asin
  | F_atan
  | F_atan2
  | F_cos
  | F_sin
  | F_tan
  | F_sqrt
  | F_log
  | F_exp
  | F_abs
  | F_pow
  | F_round
  | F_ceil
  | F_floor

fun fnText :: "FnName \<Rightarrow> string" where
  "fnText F_calc = ''calc''"
| "fnText F_min = ''min''"
| "fnText F_max = ''max''"
| "fnText F_clamp = ''clamp''"
| "fnText F_acos = ''acos''"
| "fnText F_asin = ''asin''"
| "fnText F_atan = ''atan''"
| "fnText F_atan2 = ''atan2''"
| "fnText F_cos = ''cos''"
| "fnText F_sin = ''sin''"
| "fnText F_tan = ''tan''"
| "fnText F_sqrt = ''sqrt''"
| "fnText F_log = ''log''"
| "fnText F_exp = ''exp''"
| "fnText F_abs = ''abs''"
| "fnText F_pow = ''pow''"
| "fnText F_round = ''round''"
| "fnText F_ceil = ''ceil''"
| "fnText F_floor = ''floor''"

text \<open>
  An instance of the class: the private field \<open>expressions\<close> and the two parameter
  properties \<open>operator\<close> (absent: \<open>None\<close>) and \<open>fn\<close>.
\<close>

record Calc =
  expressions :: "string list"
  operator :: "Operator option"
  fn :: FnName

text \<open>\<open>type Operand = string | number | Calc\<close>.\<close>

datatype Operand = Num jsnum | Str string | Expr Calc

definition Calc_isTerm :: "Calc \<Rightarrow> bool" where
  "Calc_isTerm op = (operator op = Some Plus \<or> operator op = Some Minus)"

definition Calc_isFactor :: "Calc \<Rightarrow> bool" where
  "Calc_isFactor op = (operator op = Some Times \<or> operator op = Some Divide)"

definition Calc_isFn :: "Calc \<Rightarrow> bool" where
  "Calc_isFn op = (fn op \<noteq> F_calc)"

definition Calc_build :: "Calc \<Rightarrow> string" where
  "Calc_build this =
     (case operator this of
        None \<Rightarrow> join '', '' (expressions this)
      | Some opr \<Rightarrow> join ('' '' @ operatorText opr @ '' '') (expressions this))"

definition Calc_toString :: "Calc \<Rightarrow> string" where
  "Calc_toString this = fnText (fn this) @ ''('' @ Calc_build this @ '')''"

text \<open>\<open>e.toString()\<close> for an operand \<open>e\<close>.\<close>

fun Operand_toString :: "Operand \<Rightarrow> string" where
  "Operand_toString (Num n) = numberToString n"
| "Operand_toString (Str s) = s"
| "Operand_toString (Expr c) = Calc_toString c"

text \<open>
  The function the constructor maps over its operands. For an operand that is not a
  \<open>Calc\<close> both remaining branches of the source are \<open>e.toString()\<close>.
\<close>

definition mapOperand :: "bool \<Rightarrow> bool \<Rightarrow> Operand \<Rightarrow> string" where
  "mapOperand thisIsFactor thisIsFn e =
     (case e of
        Expr c \<Rightarrow>
          if thisIsFactor \<and> Calc_isTerm c then ''('' @ Calc_build c @ '')''
          else if thisIsFn \<or> Calc_isFn c then Calc_toString c
          else Calc_build c
      | _ \<Rightarrow> Operand_toString e)"

text \<open>
  The constructor. The parameter properties are assigned before the body runs, so
  \<open>Calc.isFactor(this)\<close> and \<open>Calc.isFn(this)\<close> read the new node's own operator
  and function name.
\<close>

definition Calc_new :: "Operand list \<Rightarrow> Operator option \<Rightarrow> FnName \<Rightarrow> Calc" where
  "Calc_new exprs opr f =
     (let this = \<lparr> expressions = [], operator = opr, fn = f \<rparr>;
          thisIsFactor = Calc_isFactor this;
          thisIsFn = Calc_isFn this
      in this \<lparr> expressions := map (mapOperand thisIsFactor thisIsFn) exprs \<rparr>)"

subsection \<open>Methods\<close>

definition Calc_add :: "Calc \<Rightarrow> Operand list \<Rightarrow> Calc" where
  "Calc_add this operands = Calc_new (Expr this # operands) (Some Plus) F_calc"

definition Calc_subtract :: "Calc \<Rightarrow> Operand list \<Rightarrow> Calc" where
  "Calc_subtract this operands = Calc_new (Expr this # operands) (Some Minus) F_calc"

definition Calc_multiply :: "Calc \<Rightarrow> Operand list \<Rightarrow> Calc" where
  "Calc_multiply this operands = Calc_new (Expr this # operands) (Some Times) F_calc"

definition Calc_divide :: "Calc \<Rightarrow> Operand list \<Rightarrow> Calc" where
  "Calc_divide this operands = Calc_new (Expr this # operands) (Some Divide) F_calc"

definition Calc_negate :: "Calc \<Rightarrow> Calc" where
  "Calc_negate this = Calc_new [Num (num (- 1)), Expr this] (Some Times) F_calc"

definition Calc_min :: "Calc \<Rightarrow> Operand list \<Rightarrow> Calc" where
  "Calc_min this operands = Calc_new (Expr this # operands) None F_min"

definition Calc_max :: "Calc \<Rightarrow> Operand list \<Rightarrow> Calc" where
  "Calc_max this operands = Calc_new (Expr this # operands) None F_max"

definition Calc_clamp :: "Calc \<Rightarrow> Operand \<Rightarrow> Operand \<Rightarrow> Calc" where
  "Calc_clamp this lo hi = Calc_new [Expr this, lo, hi] None F_clamp"

definition Calc_atan2 :: "Calc \<Rightarrow> Operand \<Rightarrow> Calc" where
  "Calc_atan2 this y = Calc_new [Expr this, y] None F_atan2"

definition Calc_log :: "Calc \<Rightarrow> Operand option \<Rightarrow> Calc" where
  "Calc_log this base =
     (case base of
        Some b \<Rightarrow> Calc_new [Expr this, b] None F_log
      | None \<Rightarrow> Calc_new [Expr this] None F_log)"

definition Calc_pow :: "Calc \<Rightarrow> Operand \<Rightarrow> Calc" where
  "Calc_pow this exponent = Calc_new [Expr this, exponent] None F_pow"

definition Calc_acos :: "Calc \<Rightarrow> Calc" where
  "Calc_acos this = Calc_new [Expr this] None F_acos"

definition Calc_asin :: "Calc \<Rightarrow> Calc" where
  "Calc_asin this = Calc_new [Expr this] None F_asin"

definition Calc_atan :: "Calc \<Rightarrow> Calc" where
  "Calc_atan this = Calc_new [Expr this] None F_atan"

definition Calc_cos :: "Calc \<Rightarrow> Calc" where
  "Calc_cos this = Calc_new [Expr this] None F_cos"

definition Calc_sin :: "Calc \<Rightarrow> Calc" where
  "Calc_sin this = Calc_new [Expr this] None F_sin"

definition Calc_tan :: "Calc \<Rightarrow> Calc" where
  "Calc_tan this = Calc_new [Expr this] None F_tan"

definition Calc_sqrt :: "Calc \<Rightarrow> Calc" where
  "Calc_sqrt this = Calc_new [Expr this] None F_sqrt"

definition Calc_exp :: "Calc \<Rightarrow> Calc" where
  "Calc_exp this = Calc_new [Expr this] None F_exp"

definition Calc_abs :: "Calc \<Rightarrow> Calc" where
  "Calc_abs this = Calc_new [Expr this] None F_abs"

definition Calc_round :: "Calc \<Rightarrow> Calc" where
  "Calc_round this = Calc_new [Expr this] None F_round"

definition Calc_ceil :: "Calc \<Rightarrow> Calc" where
  "Calc_ceil this = Calc_new [Expr this] None F_ceil"

definition Calc_floor :: "Calc \<Rightarrow> Calc" where
  "Calc_floor this = Calc_new [Expr this] None F_floor"

subsection \<open>Exported functions\<close>

definition calc :: "Operand \<Rightarrow> Calc" where
  "calc x = Calc_new [x] None F_calc"

definition min_fn :: "Operand list \<Rightarrow> Calc" where
  "min_fn operands = Calc_new operands None F_min"

definition max_fn :: "Operand list \<Rightarrow> Calc" where
  "max_fn operands = Calc_new operands None F_max"

definition clamp_fn :: "Operand \<Rightarrow> Operand \<Rightarrow> Operand \<Rightarrow> Calc" where
  "clamp_fn lo v hi = Calc_new [lo, v, hi] None F_clamp"

definition atan2_fn :: "Operand \<Rightarrow> Operand \<Rightarrow> Calc" where
  "atan2_fn x y = Calc_new [x, y] None F_atan2"

definition log_fn :: "Operand \<Rightarrow> Operand option \<Rightarrow> Calc" where
  "log_fn v base =
     (case base of
        Some b \<Rightarrow> Calc_new [v, b] None F_log
      | None \<Rightarrow> Calc_new [v] None F_log)"

definition pow_fn :: "Operand \<Rightarrow> Operand \<Rightarrow> Calc" where
  "pow_fn base exponent = Calc_new [base, exponent] None F_pow"

definition acos_fn :: "Operand \<Rightarrow> Calc" where
  "acos_fn v = Calc_new [v] None F_acos"

definition asin_fn :: "Operand \<Rightarrow> Calc" where
  "asin_fn v = Calc_new [v] None F_asin"

definition atan_fn :: "Operand \<Rightarrow> Calc" where
  "atan_fn v = Calc_new [v] None F_atan"

definition cos_fn :: "Operand \<Rightarrow> Calc" where
  "cos_fn v = Calc_new [v] None F_cos"

definition sin_fn :: "Operand \<Rightarrow> Calc" where
  "sin_fn v = Calc_new [v] None F_sin"

definition tan_fn :: "Operand \<Rightarrow> Calc" where
  "tan_fn v = Calc_new [v] None F_tan"

definition sqrt_fn :: "Operand \<Rightarrow> Calc" where
  "sqrt_fn v = Calc_new [v] None F_sqrt"

definition exp_fn :: "Operand \<Rightarrow> Calc" where
  "exp_fn v = Calc_new [v] None F_exp"

definition abs_fn :: "Operand \<Rightarrow> Calc" where
  "abs_fn v = Calc_new [v] None F_abs"

definition round_fn :: "Operand \<Rightarrow> Calc" where
  "round_fn v = Calc_new [v] None F_round"

definition ceil_fn :: "Operand \<Rightarrow> Calc" where
  "ceil_fn v = Calc_new [v] None F_ceil"

definition floor_fn :: "Operand \<Rightarrow> Calc" where
  "floor_fn v = Calc_new [v] None F_floor"

subsection \<open>The nodes a program can hold\<close>

text \<open>
  The class is not exported: every node comes from an exported function or a method.
  The arithmetic methods pass an operator and leave the function name at \<open>calc\<close>,
  as do \<open>calc\<close> and the constant functions (\<open>e\<close>, \<open>pi\<close>, \<open>inf\<close>, \<open>nan\<close>,
  \<open>random\<close>; they take no node and are not modelled); the named functions pass their
  name and no operator. So a node with a function name other than \<open>calc\<close> has no
  operator.
\<close>

definition Calc_wf :: "Calc \<Rightarrow> bool" where
  "Calc_wf c = (Calc_isFn c \<longrightarrow> operator c = None)"

section \<open>The transform builder (class \<open>Transform\<close>)\<close>

text \<open>\<open>Number(value)\<close> for an operand: a \<open>Calc\<close> is converted through its \<open>toString()\<close>.\<close>

fun Operand_toNumber :: "Operand \<Rightarrow> jsnum" where
  "Operand_toNumber (Num n) = n"
| "Operand_toNumber (Str s) = stringToNumber s"
| "Operand_toNumber (Expr c) = stringToNumber (Calc_toString c)"

text \<open>\<open>value === 0\<close>: the operand is a number and that number is zero.\<close>

fun Operand_isZero :: "Operand \<Rightarrow> bool" where
  "Operand_isZero (Num n) = isZero n"
| "Operand_isZero _ = False"

definition coerceValue :: "Operand \<Rightarrow> string \<Rightarrow> string" where
  "coerceValue v unit =
     (if Operand_isZero v then ''0''
      else if isNaN (Operand_toNumber v) then Operand_toString v
      else numberToString (Operand_toNumber v) @ unit)"

record Transform =
  transforms :: "string list"

definition Transform_matrix ::
  "Transform \<Rightarrow> jsnum \<Rightarrow> jsnum \<Rightarrow> jsnum \<Rightarrow> jsnum \<Rightarrow> jsnum \<Rightarrow> jsnum \<Rightarrow> Transform" where
  "Transform_matrix this a1 b1 a2 b2 a4 b4 =
     \<lparr> transforms = transforms this @
         [''matrix('' @ join '', '' (map numberToString [a1, b1, a2, b2, a4, b4]) @ '')''] \<rparr>"

text \<open>The sixteen numbers of \<open>matrix3d\<close> are taken as one list, in the order of the parameters.\<close>

definition Transform_matrix3d :: "Transform \<Rightarrow> jsnum list \<Rightarrow> Transform" where
  "Transform_matrix3d this ms =
     \<lparr> transforms = transforms this @
         [''matrix3d('' @ join '', '' (map numberToString ms) @ '')''] \<rparr>"

definition Transform_perspective :: "Transform \<Rightarrow> Operand \<Rightarrow> Transform" where
  "Transform_perspective this v =
     \<lparr> transforms = transforms this @ [''perspective('' @ coerceValue v ''px'' @ '')''] \<rparr>"

definition Transform_rotate :: "Transform \<Rightarrow> Operand \<Rightarrow> Transform" where
  "Transform_rotate this v =
     \<lparr> transforms = transforms this @ [''rotate('' @ coerceValue v ''deg'' @ '')''] \<rparr>"

definition Transform_rotate3d ::
  "Transform \<Rightarrow> jsnum \<Rightarrow> jsnum \<Rightarrow> jsnum \<Rightarrow> Operand \<Rightarrow> Transform" where
  "Transform_rotate3d this x y z angle =
     \<lparr> transforms = transforms this @
         [''rotate3d('' @ numberToString x @ '', '' @ numberToString y @ '', '' @
          numberToString z @ '', '' @ coerceValue angle ''deg'' @ '')''] \<rparr>"

definition Transform_rotateX :: "Transform \<Rightarrow> Operand \<Rightarrow> Transform" where
  "Transform_rotateX this v =
     \<lparr> transforms = transforms this @ [''rotateX('' @ coerceValue v ''deg'' @ '')''] \<rparr>"

definition Transform_rotateY :: "Transform \<Rightarrow> Operand \<Rightarrow> Transform" where
  "Transform_rotateY this v =
     \<lparr> transforms = transforms this @ [''rotateY('' @ coerceValue v ''deg'' @ '')''] \<rparr>"

definition Transform_rotateZ :: "Transform \<Rightarrow> Operand \<Rightarrow> Transform" where
  "Transform_rotateZ this v =
     \<lparr> transforms = transforms this @ [''rotateZ('' @ coerceValue v ''deg'' @ '')''] \<rparr>"

text \<open>\<open>scale(x, y = x)\<close>: the operands are interpolated as they are, without a unit.\<close>

definition Transform_scale :: "Transform \<Rightarrow> Operand \<Rightarrow> Operand option \<Rightarrow> Transform" where
  "Transform_scale this x y =
     \<lparr> transforms = transforms this @
         [''scale('' @ Operand_toString x @ '', '' @
          Operand_toString (case y of None \<Rightarrow> x | Some y' \<Rightarrow> y') @ '')''] \<rparr>"

definition Transform_scale3d :: "Transform \<Rightarrow> jsnum \<Rightarrow> jsnum \<Rightarrow> jsnum \<Rightarrow> Transform" where
  "Transform_scale3d this x y z =
     \<lparr> transforms = transforms this @
         [''scale3d('' @ numberToString x @ '', '' @ numberToString y @ '', '' @
          numberToString z @ '')''] \<rparr>"

definition Transform_scaleX :: "Transform \<Rightarrow> jsnum \<Rightarrow> Transform" where
  "Transform_scaleX this v =
     \<lparr> transforms = transforms this @ [''scaleX('' @ numberToString v @ '')''] \<rparr>"

definition Transform_scaleY :: "Transform \<Rightarrow> jsnum \<Rightarrow> Transform" where
  "Transform_scaleY this v =
     \<lparr> transforms = transforms this @ [''scaleY('' @ numberToString v @ '')''] \<rparr>"

definition Transform_scaleZ :: "Transform \<Rightarrow> jsnum \<Rightarrow> Transform" where
  "Transform_scaleZ this v =
     \<lparr> transforms = transforms this @ [''scaleZ('' @ numberToString v @ '')''] \<rparr>"

text \<open>\<open>skew(x, y = 0)\<close> and \<open>translate(x, y = 0)\<close>.\<close>

definition Transform_skew :: "Transform \<Rightarrow> Operand \<Rightarrow> Operand option \<Rightarrow> Transform" where
  "Transform_skew this x y =
     \<lparr> transforms = transforms this @
         [''skew('' @ coerceValue x ''deg'' @ '', '' @
          coerceValue (case y of None \<Rightarrow> Num (num 0) | Some y' \<Rightarrow> y') ''deg'' @ '')''] \<rparr>"

definition Transform_skewX :: "Transform \<Rightarrow> Operand \<Rightarrow> Transform" where
  "Transform_skewX this v =
     \<lparr> transforms = transforms this @ [''skewX('' @ coerceValue v ''deg'' @ '')''] \<rparr>"

definition Transform_skewY :: "Transform \<Rightarrow> Operand \<Rightarrow> Transform" where
  "Transform_skewY this v =
     \<lparr> transforms = transforms this @ [''skewY('' @ coerceValue v ''deg'' @ '')''] \<rparr>"

definition Transform_translate :: "Transform \<Rightarrow> Operand \<Rightarrow> Operand option \<Rightarrow> Transform" where
  "Transform_translate this x y =
     \<lparr> transforms = transforms this @
         [''translate('' @ coerceValue x ''px'' @ '', '' @
          coerceValue (case y of None \<Rightarrow> Num (num 0) | Some y' \<Rightarrow> y') ''px'' @ '')''] \<rparr>"

definition Transform_translate3d ::
  "Transform \<Rightarrow> Operand \<Rightarrow> Operand \<Rightarrow> Operand \<Rightarrow> Transform" where
  "Transform_translate3d this x y z =
     \<lparr> transforms = transforms this @
         [''translate3d('' @ coerceValue x ''px'' @ '', '' @ coerceValue y ''px'' @ '', '' @
          coerceValue z ''px'' @ '')''] \<rparr>"

definition Transform_translateX :: "Transform \<Rightarrow> Operand \<Rightarrow> Transform" where
  "Transform_translateX this v =
     \<lparr> transforms = transforms this @ [''translateX('' @ coerceValue v ''px'' @ '')''] \<rparr>"

definition Transform_translateY :: "Transform \<Rightarrow> Operand \<Rightarrow> Transform" where
  "Transform_translateY this v =
     \<lparr> transforms = transforms this @ [''translateY('' @ coerceValue v ''px'' @ '')''] \<rparr>"

definition Transform_translateZ :: "Transform \<Rightarrow> Operand \<Rightarrow> Transform" where
  "Transform_translateZ this v =
     \<lparr> transforms = transforms this @ [''translateZ('' @ coerceValue v ''px'' @ '')''] \<rparr>"

definition Transform_toString :: "Transform \<Rightarrow> string" where
  "Transform_toString this = join '' '' (transforms this)"

definition transform :: Transform where
  "transform = \<lparr> transforms = [] \<rparr>"

section \<open>Values, objects and the store of the transition and animation builders\<close>

text \<open>
  The configuration values are strings by their declared types, but \<open>duration\<close> and
  \<open>delay\<close> also take numbers, and an optional field reads as \<open>undefined\<close>.
\<close>

datatype jsval = Undefined | VNum jsnum | VStr string

text \<open>\<open>Boolean(v)\<close>, the predicate of \<open>filter(Boolean)\<close>.\<close>

fun toBoolean :: "jsval \<Rightarrow> bool" where
  "toBoolean Undefined = False"
| "toBoolean (VNum n) = (\<not> isNaN n \<and> \<not> isZero n)"
| "toBoolean (VStr s) = (s \<noteq> [])"

text \<open>\<open>Number(v)\<close>.\<close>

fun toNumber :: "jsval \<Rightarrow> jsnum" where
  "toNumber Undefined = NaN"
| "toNumber (VNum n) = n"
| "toNumber (VStr s) = stringToNumber s"

text \<open>The text of an array element in \<open>join\<close>: \<open>undefined\<close> gives the empty string.\<close>

fun elementText :: "jsval \<Rightarrow> string" where
  "elementText Undefined = []"
| "elementText (VNum n) = numberToString n"
| "elementText (VStr s) = s"

definition coerceToUnit :: "jsval \<Rightarrow> string \<Rightarrow> jsval" where
  "coerceToUnit v unit =
     (let asNumber = toNumber v in
      if isNaN asNumber then v else VStr (numberToString asNumber @ unit))"

definition DEFAULT_TIME_UNIT :: string where
  "DEFAULT_TIME_UNIT = ''ms''"

definition coerceToTime :: "jsval \<Rightarrow> string option \<Rightarrow> jsval" where
  "coerceToTime v unit =
     coerceToUnit v (case unit of None \<Rightarrow> DEFAULT_TIME_UNIT | Some u \<Rightarrow> u)"

definition cubicBezier :: "jsnum \<Rightarrow> jsnum \<Rightarrow> jsnum \<Rightarrow> jsnum \<Rightarrow> string" where
  "cubicBezier p1 p2 p3 p4 =
     ''cubic-bezier('' @ numberToString p1 @ '', '' @ numberToString p2 @ '', '' @
     numberToString p3 @ '', '' @ numberToString p4 @ '')''"

text \<open>
  A configuration object is a finite map from property names to values; reading a
  property that is absent gives \<open>undefined\<close>. The spread \<open>{ ...o }\<close> copies the map,
  and \<open>Object.assign(target, source)\<close> overwrites, in the object \<open>target\<close> refers to,
  the properties that \<open>source\<close> has.

  The two modules each keep one configuration object for their defaults, which
  \<open>Object.assign\<close> mutates, and the builders hold references to configuration objects.
  The store maps references to objects; \<open>nextRef\<close> is the first unused reference.
\<close>

type_synonym object = "string \<rightharpoonup> jsval"

type_synonym ref = nat

record heap =
  objects :: "ref \<Rightarrow> object"
  nextRef :: ref

definition getProp :: "object \<Rightarrow> string \<Rightarrow> jsval" where
  "getProp obj k = (case obj k of None \<Rightarrow> Undefined | Some v \<Rightarrow> v)"

definition alloc :: "object \<Rightarrow> heap \<Rightarrow> ref \<times> heap" where
  "alloc obj h =
     (nextRef h, h \<lparr> objects := (objects h)(nextRef h := obj), nextRef := Suc (nextRef h) \<rparr>)"

definition Object_assign :: "ref \<Rightarrow> object \<Rightarrow> heap \<Rightarrow> heap" where
  "Object_assign target source h =
     h \<lparr> objects := (objects h)(target := objects h target ++ source) \<rparr>"

text \<open>The module-level constants \<open>defaultConfig\<close> (transition) and \<open>config\<close> (animation).\<close>

definition defaultConfig :: ref where
  "defaultConfig = 0"

definition config :: ref where
  "config = 1"

text \<open>The store once both modules are loaded.\<close>

definition initialHeap :: heap where
  "initialHeap =
     \<lparr> objects = (\<lambda>r. Map.empty)
         (defaultConfig :=
            [''transitionDuration'' \<mapsto> VStr ''300ms'',
             ''transitionTimingFunction'' \<mapsto>
                VStr (cubicBezier (Finite 4 (- 1)) (num 0) (Finite 2 (- 1)) (num 1))],
          config :=
            [''animationDuration'' \<mapsto> VStr ''300ms'',
             ''animationTimingFunction'' \<mapsto> VStr ''cubic-bezier(0.4, 0, 0.2, 1)'']),
       nextRef = 2 \<rparr>"

section \<open>The transition builder (class \<open>Transition\<close>)\<close>

definition transitionConfigDefaults :: "object \<Rightarrow> heap \<Rightarrow> heap" where
  "transitionConfigDefaults newConfig h = Object_assign defaultConfig newConfig h"

datatype Transition =
  Transition (properties: "string list") (configuration: ref)
    (otherTransitions: "Transition list")

definition Transition_duration :: "Transition \<Rightarrow> jsval \<Rightarrow> heap \<Rightarrow> Transition \<times> heap" where
  "Transition_duration this duration h =
     (case alloc ((objects h (configuration this))(''transitionDuration'' \<mapsto> coerceToTime duration None)) h of
        (r, h') \<Rightarrow> (Transition (properties this) r (otherTransitions this), h'))"

definition Transition_timingFunction :: "Transition \<Rightarrow> jsval \<Rightarrow> heap \<Rightarrow> Transition \<times> heap" where
  "Transition_timingFunction this timingFunction h =
     (case alloc ((objects h (configuration this))(''transitionTimingFunction'' \<mapsto> timingFunction)) h of
        (r, h') \<Rightarrow> (Transition (properties this) r (otherTransitions this), h'))"

definition Transition_delay :: "Transition \<Rightarrow> jsval \<Rightarrow> heap \<Rightarrow> Transition \<times> heap" where
  "Transition_delay this delay h =
     (case alloc ((objects h (configuration this))(''transitionDelay'' \<mapsto> coerceToTime delay None)) h of
        (r, h') \<Rightarrow> (Transition (properties this) r (otherTransitions this), h'))"

definition Transition_and :: "Transition \<Rightarrow> Transition list \<Rightarrow> Transition" where
  "Transition_and this transitions =
     Transition (properties this) (configuration this) (otherTransitions this @ transitions)"

text \<open>The text \<open>cfg\<close> that \<open>toString\<close> computes from the configuration object.\<close>

definition Transition_cfg :: "object \<Rightarrow> string" where
  "Transition_cfg c =
     join '' '' (map elementText (filter toBoolean
       [getProp c ''transitionDuration'',
        getProp c ''transitionTimingFunction'',
        getProp c ''transitionDelay'']))"

fun Transition_toString :: "heap \<Rightarrow> Transition \<Rightarrow> string" where
  "Transition_toString h (Transition props c others) =
     (let cfg = Transition_cfg (objects h c);
          self = join '', '' (map (\<lambda>property. property @ '' '' @ cfg) props);
          other = map (Transition_toString h) others
      in join '', '' ([self] @ other))"

text \<open>
  \<open>transition(...properties)\<close>: the constructor's default argument
  \<open>{ ...defaultConfig }\<close> is a new object holding what the defaults hold at that moment.
\<close>

definition transition :: "string list \<Rightarrow> heap \<Rightarrow> Transition \<times> heap" where
  "transition props h =
     (case alloc (objects h defaultConfig) h of
        (r, h') \<Rightarrow> (Transition props r [], h'))"

section \<open>The animation builder (class \<open>Animation\<close>)\<close>

definition animationConfigDefaults :: "object \<Rightarrow> heap \<Rightarrow> heap" where
  "animationConfigDefaults newConfig h = Object_assign config newConfig h"

datatype Animation =
  Animation (keyframes: "string list") (configurationA: ref)
    (otherAnimations: "Animation list")

definition Animation_duration :: "Animation \<Rightarrow> jsval \<Rightarrow> heap \<Rightarrow> Animation \<times> heap" where
  "Animation_duration this duration h =
     (case alloc ((objects h (configurationA this))(''animationDuration'' \<mapsto> coerceToTime duration None)) h of
        (r, h') \<Rightarrow> (Animation (keyframes this) r (otherAnimations this), h'))"

definition Animation_timingFunction :: "Animation \<Rightarrow> jsval \<Rightarrow> heap \<Rightarrow> Animation \<times> heap" where
  "Animation_timingFunction this timingFunction h =
     (case alloc ((objects h (configurationA this))(''animationTimingFunction'' \<mapsto> timingFunction)) h of
        (r, h') \<Rightarrow> (Animation (keyframes this) r (otherAnimations this), h'))"

definition Animation_delay :: "Animation \<Rightarrow> jsval \<Rightarrow> heap \<Rightarrow> Animation \<times> heap" where
  "Animation_delay this delay h =
     (case alloc ((objects h (configurationA this))(''animationDelay'' \<mapsto> coerceToTime delay None)) h of
        (r, h') \<Rightarrow> (Animation (keyframes this) r (otherAnimations this), h'))"

definition Animation_iterationCount :: "Animation \<Rightarrow> jsval \<Rightarrow> heap \<Rightarrow> Animation \<times> heap" where
  "Animation_iterationCount this iterationCount h =
     (case alloc ((objects h (configurationA this))(''animationIterationCount'' \<mapsto> iterationCount)) h of
        (r, h') \<Rightarrow> (Animation (keyframes this) r (otherAnimations this), h'))"

definition Animation_direction :: "Animation \<Rightarrow> jsval \<Rightarrow> heap \<Rightarrow> Animation \<times> heap" where
  "Animation_direction this direction h =
     (case alloc ((objects h (configurationA this))(''animationDirection'' \<mapsto> direction)) h of
        (r, h') \<Rightarrow> (Animation (keyframes this) r (otherAnimations this), h'))"

definition Animation_fillMode :: "Animation \<Rightarrow> jsval \<Rightarrow> heap \<Rightarrow> Animation \<times> heap" where
  "Animation_fillMode this fillMode h =
     (case alloc ((objects h (configurationA this))(''animationFillMode'' \<mapsto> fillMode)) h of
        (r, h') \<Rightarrow> (Animation (keyframes this) r (otherAnimations this), h'))"

definition Animation_playState :: "Animation \<Rightarrow> jsval \<Rightarrow> heap \<Rightarrow> Animation \<times> heap" where
  "Animation_playState this playState h =
     (case alloc ((objects h (configurationA this))(''animationPlayState'' \<mapsto> playState)) h of
        (r, h') \<Rightarrow> (Animation (keyframes this) r (otherAnimations this), h'))"

definition Animation_and :: "Animation \<Rightarrow> Animation list \<Rightarrow> Animation" where
  "Animation_and this animations =
     Animation (keyframes this) (configurationA this) (otherAnimations this @ animations)"

definition Animation_cfg :: "object \<Rightarrow> string" where
  "Animation_cfg c =
     join '' '' (map elementText (filter toBoolean
       [getProp c ''animationDuration'',
        getProp c ''animationTimingFunction'',
        getProp c ''animationDelay'',
        getProp c ''animationIterationCount'',
        getProp c ''animationDirection'',
        getProp c ''animationFillMode'',
        getProp c ''animationPlayState'']))"

fun Animation_toString :: "heap \<Rightarrow> Animation \<Rightarrow> string" where
  "Animation_toString h (Animation kfs c others) =
     (let cfg = Animation_cfg (objects h c);
          self = join '', '' (map (\<lambda>keyframe. cfg @ '' '' @ keyframe) kfs);
          other = map (Animation_toString h) others
      in join '', '' ([self] @ other))"

definition animation :: "string list \<Rightarrow> heap \<Rightarrow> Animation \<times> heap" where
  "animation kfs h =
     (case alloc (objects h config) h of
        (r, h') \<Rightarrow> (Animation kfs r [], h'))"

subsection \<open>The builders a program can hold\<close>

text \<open>
  The classes are not exported: every builder comes from \<open>transition\<close> or
  \<open>animation\<close> and the methods. The configuration objects such a builder refers to,
  directly or through the builders composed into it, are objects allocated for builders;
  none is the defaults object of either module.
\<close>

fun Transition_refs :: "Transition \<Rightarrow> ref list" where
  "Transition_refs (Transition props c others) = c # concat (map Transition_refs others)"

fun Animation_refs :: "Animation \<Rightarrow> ref list" where
  "Animation_refs (Animation kfs c others) = c # concat (map Animation_refs others)"

definition builderRef :: "heap \<Rightarrow> ref \<Rightarrow> bool" where
  "builderRef h r = (r \<noteq> defaultConfig \<and> r \<noteq> config \<and> r < nextRef h)"

definition Transition_built :: "heap \<Rightarrow> Transition \<Rightarrow> bool" where
  "Transition_built h t = list_all (builderRef h) (Transition_refs t)"

definition Animation_built :: "heap \<Rightarrow> Animation \<Rightarrow> bool" where
  "Animation_built h a = list_all (builderRef h) (Animation_refs a)"

text \<open>The store never hands out the references of the two defaults objects.\<close>

definition heap_ok :: "heap \<Rightarrow> bool" where
  "heap_ok h = (defaultConfig < nextRef h \<and> config < nextRef h)"

section \<open>Properties of the expression builder\<close>

subsection \<open>The constructor and joining\<close>

lemma Calc_new_expressions:
  "expressions (Calc_new ops opr f) =
     map (mapOperand (opr = Some Times \<or> opr = Some Divide) (f \<noteq> F_calc)) ops"
  by (simp add: Calc_new_def Calc_isFactor_def Calc_isFn_def Let_def)

lemma Calc_new_operator: "operator (Calc_new ops opr f) = opr"
  by (simp add: Calc_new_def Let_def)

lemma Calc_new_fn: "fn (Calc_new ops opr f) = f"
  by (simp add: Calc_new_def Let_def)

lemma Calc_new_nth:
  "i < length ops \<Longrightarrow>
   expressions (Calc_new ops opr f) ! i =
     mapOperand (opr = Some Times \<or> opr = Some Divide) (f \<noteq> F_calc) (ops ! i)"
  by (simp add: Calc_new_expressions)

lemma Calc_build_new:
  "Calc_build (Calc_new ops (Some opr) f) =
     join ('' '' @ operatorText opr @ '' '')
       (map (mapOperand (opr = Times \<or> opr = Divide) (f \<noteq> F_calc)) ops)"
  by (simp add: Calc_build_def Calc_new_expressions Calc_new_operator)

lemma join_Cons: "ys \<noteq> [] \<Longrightarrow> join sep (x # ys) = x @ sep @ join sep ys"
  by (cases ys) simp_all

lemma join_append:
  "xs \<noteq> [] \<Longrightarrow> ys \<noteq> [] \<Longrightarrow> join sep (xs @ ys) = join sep xs @ sep @ join sep ys"
  by (induction sep xs rule: join.induct) (simp_all add: join_Cons)

lemma join_flat: "xs \<noteq> [] \<Longrightarrow> join sep (join sep xs # ys) = join sep (xs @ ys)"
  by (cases "ys = []") (simp_all add: join_Cons join_append)

text \<open>Every function of the module builds a node that satisfies \<open>Calc_wf\<close>.\<close>

lemma Calc_new_wf: "opr = None \<or> f = F_calc \<Longrightarrow> Calc_wf (Calc_new ops opr f)"
  by (auto simp: Calc_wf_def Calc_isFn_def Calc_new_fn Calc_new_operator)

lemma arithmetic_methods_wf:
  "Calc_wf (Calc_add this operands)" "Calc_wf (Calc_subtract this operands)"
  "Calc_wf (Calc_multiply this operands)" "Calc_wf (Calc_divide this operands)"
  "Calc_wf (Calc_negate this)" "Calc_wf (calc x)"
  by (simp_all add: Calc_new_wf Calc_add_def Calc_subtract_def Calc_multiply_def
      Calc_divide_def Calc_negate_def calc_def)

lemma named_methods_wf:
  "Calc_wf (Calc_min this operands)" "Calc_wf (Calc_max this operands)"
  "Calc_wf (Calc_clamp this lo hi)" "Calc_wf (Calc_atan2 this y)" "Calc_wf (Calc_pow this y)"
  "Calc_wf (Calc_log this base)" "Calc_wf (Calc_acos this)" "Calc_wf (Calc_asin this)"
  "Calc_wf (Calc_atan this)" "Calc_wf (Calc_cos this)" "Calc_wf (Calc_sin this)"
  "Calc_wf (Calc_tan this)" "Calc_wf (Calc_sqrt this)" "Calc_wf (Calc_exp this)"
  "Calc_wf (Calc_abs this)" "Calc_wf (Calc_round this)" "Calc_wf (Calc_ceil this)"
  "Calc_wf (Calc_floor this)"
  by (simp_all add: Calc_new_wf Calc_min_def Calc_max_def Calc_clamp_def Calc_atan2_def
      Calc_pow_def Calc_log_def Calc_acos_def Calc_asin_def Calc_atan_def Calc_cos_def
      Calc_sin_def Calc_tan_def Calc_sqrt_def Calc_exp_def Calc_abs_def Calc_round_def
      Calc_ceil_def Calc_floor_def split: option.split)

lemma named_functions_wf:
  "Calc_wf (min_fn operands)" "Calc_wf (max_fn operands)" "Calc_wf (clamp_fn lo v hi)"
  "Calc_wf (atan2_fn x y)" "Calc_wf (pow_fn x y)" "Calc_wf (log_fn v base)"
  "Calc_wf (acos_fn v)" "Calc_wf (asin_fn v)" "Calc_wf (atan_fn v)" "Calc_wf (cos_fn v)"
  "Calc_wf (sin_fn v)" "Calc_wf (tan_fn v)" "Calc_wf (sqrt_fn v)" "Calc_wf (exp_fn v)"
  "Calc_wf (abs_fn v)" "Calc_wf (round_fn v)" "Calc_wf (ceil_fn v)" "Calc_wf (floor_fn v)"
  by (simp_all add: Calc_new_wf min_fn_def max_fn_def clamp_fn_def atan2_fn_def pow_fn_def
      log_fn_def acos_fn_def asin_fn_def atan_fn_def cos_fn_def sin_fn_def tan_fn_def
      sqrt_fn_def exp_fn_def abs_fn_def round_fn_def ceil_fn_def floor_fn_def
      split: option.split)

lemma Calc_toString_neq_build: "Calc_toString c \<noteq> Calc_build c"
proof
  assume "Calc_toString c = Calc_build c"
  then have "length (Calc_toString c) = length (Calc_build c)" by simp
  then show False by (simp add: Calc_toString_def)
qed

subsection \<open>Parenthesization\<close>

text \<open>
  Claim C1. Let \<open>ops\<close> be the operand list a multiplicative node is constructed from
  and let its \<open>i\<close>-th operand be a node \<open>n\<close> with operator \<open>+\<close> or \<open>-\<close>. Then the
  \<open>i\<close>-th text stored in the new node is \<open>n.build()\<close> in parentheses: for the
  constructor called with \<open>*\<close> or \<open>/\<close>, for \<open>multiply\<close> and \<open>divide\<close> (operand list:
  the receiver, then the arguments) and for \<open>negate\<close> (operand list: \<open>-1\<close>, then the
  receiver). The stored texts are what \<open>toString\<close> joins.
\<close>

theorem additive_operand_parenthesized:
  assumes "Calc_isTerm n" and "i < length ops" and "ops ! i = Expr n"
  shows "(opr = Times \<or> opr = Divide \<longrightarrow>
            expressions (Calc_new ops (Some opr) f) ! i = ''('' @ Calc_build n @ '')'')
       \<and> (\<forall>this operands. ops = Expr this # operands \<longrightarrow>
            expressions (Calc_multiply this operands) ! i = ''('' @ Calc_build n @ '')'' \<and>
            expressions (Calc_divide this operands) ! i = ''('' @ Calc_build n @ '')'')
       \<and> (\<forall>this. ops = [Num (num (- 1)), Expr this] \<longrightarrow>
            expressions (Calc_negate this) ! i = ''('' @ Calc_build n @ '')'')
       \<and> Calc_toString (Calc_new ops (Some opr) F_calc) =
            ''calc('' @ join ('' '' @ operatorText opr @ '' '')
               (expressions (Calc_new ops (Some opr) F_calc)) @ '')''"
  using assms
  by (auto simp: Calc_new_nth Calc_multiply_def Calc_divide_def Calc_negate_def mapOperand_def
      Calc_toString_def Calc_build_def Calc_new_operator Calc_new_fn)

theorem additive_operand_parenthesized_witness:
  "expressions (Calc_multiply (calc (Num (num 1)))
      [Expr (Calc_add (calc (Num (num 2))) [Num (num 3)])]) ! 1 = ''(2 + 3)''
   \<and> expressions (Calc_negate (Calc_add (calc (Num (num 2))) [Num (num 3)])) ! 1 = ''(2 + 3)''"
proof -
  let ?n = "Calc_add (calc (Num (num 2))) [Num (num 3)]"
  have t: "Calc_isTerm ?n" by code_simp
  have b: "Calc_build ?n = ''2 + 3''" by code_simp
  have "expressions (Calc_multiply (calc (Num (num 1))) [Expr ?n]) ! 1
          = ''('' @ Calc_build ?n @ '')''"
    using additive_operand_parenthesized
      [OF t, of 1 "[Expr (calc (Num (num 1))), Expr ?n]"] by simp
  moreover have "expressions (Calc_negate ?n) ! 1 = ''('' @ Calc_build ?n @ '')''"
    using additive_operand_parenthesized [OF t, of 1 "[Num (num (- 1)), Expr ?n]"] by simp
  ultimately show ?thesis by (simp add: b)
qed

subsection \<open>Arguments of named functions\<close>

text \<open>
  Claim C2. Let \<open>ops\<close> be the operand list of a construction and \<open>i\<close> a position in
  it. If the node under construction is a named-function node (a function name other
  than \<open>calc\<close>, and no operator, as every named function passes), the \<open>i\<close>-th stored
  text is the operand's \<open>toString()\<close>. If the \<open>i\<close>-th operand is a named-function node
  (one the module can build), the stored text is that node's \<open>toString()\<close>, whatever
  node is under construction. A node's \<open>toString()\<close> is never its \<open>build()\<close>. So
  \<open>min(1, 2, 3).add(4)\<close> renders \<open>calc(min(1, 2, 3) + 4)\<close>, and in
  \<open>calc(4).add(3).min(2, 3)\<close> the receiver is stored as \<open>calc(4 + 3)\<close>.
\<close>

theorem named_function_operand_toString:
  assumes "i < length ops"
  shows "(f \<noteq> F_calc \<longrightarrow>
            expressions (Calc_new ops None f) ! i = Operand_toString (ops ! i))
       \<and> (\<forall>c. ops ! i = Expr c \<and> Calc_isFn c \<and> Calc_wf c \<longrightarrow>
            expressions (Calc_new ops opr f) ! i = Calc_toString c)
       \<and> (\<forall>c. Calc_toString c \<noteq> Calc_build c)
       \<and> Calc_toString (Calc_add (min_fn [Num (num 1), Num (num 2), Num (num 3)]) [Num (num 4)])
           = ''calc(min(1, 2, 3) + 4)''
       \<and> expressions (Calc_min (Calc_add (calc (Num (num 4))) [Num (num 3)])
            [Num (num 2), Num (num 3)]) ! 0 = ''calc(4 + 3)''"
proof -
  have a: "f \<noteq> F_calc \<longrightarrow>
            expressions (Calc_new ops None f) ! i = Operand_toString (ops ! i)"
    using assms by (cases "ops ! i") (simp_all add: Calc_new_nth mapOperand_def)
  have b: "\<forall>c. ops ! i = Expr c \<and> Calc_isFn c \<and> Calc_wf c \<longrightarrow>
            expressions (Calc_new ops opr f) ! i = Calc_toString c"
    using assms by (simp add: Calc_new_nth mapOperand_def Calc_wf_def Calc_isTerm_def)
  have c: "Calc_toString (Calc_add (min_fn [Num (num 1), Num (num 2), Num (num 3)]) [Num (num 4)])
           = ''calc(min(1, 2, 3) + 4)''"
    by code_simp
  have d: "expressions (Calc_min (Calc_add (calc (Num (num 4))) [Num (num 3)])
            [Num (num 2), Num (num 3)]) ! 0 = ''calc(4 + 3)''"
    by code_simp
  show ?thesis using a b c d Calc_toString_neq_build by blast
qed

theorem named_function_operand_toString_witness:
  "expressions (Calc_new [Expr (min_fn [Num (num 1), Num (num 2)]), Num (num 4)] (Some Times) F_calc) ! 0
     = ''min(1, 2)''
   \<and> expressions (Calc_new [Expr (calc (Num (num 4))), Str ''5px''] None F_max) ! 0 = ''calc(4)''"
proof -
  let ?m = "min_fn [Num (num 1), Num (num 2)]"
  let ?ops = "[Expr ?m, Num (num 4)]"
  let ?ops2 = "[Expr (calc (Num (num 4))), Str ''5px'']"
  have i: "0 < length ?ops" by simp
  have i2: "0 < length ?ops2" by simp
  have m: "?ops ! 0 = Expr ?m \<and> Calc_isFn ?m \<and> Calc_wf ?m"
    by (simp add: min_fn_def Calc_new_wf Calc_isFn_def Calc_new_fn)
  have f: "F_max \<noteq> F_calc" by simp
  have ts: "Calc_toString ?m = ''min(1, 2)''" by code_simp
  have ts2: "Operand_toString (?ops2 ! 0) = ''calc(4)''" by code_simp
  have "expressions (Calc_new ?ops (Some Times) F_calc) ! 0 = Calc_toString ?m"
    using named_function_operand_toString [OF i, of F_calc "Some Times"] m by blast
  moreover have "expressions (Calc_new ?ops2 None F_max) ! 0 = Operand_toString (?ops2 ! 0)"
    using named_function_operand_toString [OF i2, of F_max] f by blast
  ultimately show ?thesis by (simp only: ts ts2)
qed

subsection \<open>Flattening\<close>

lemma mapOperand_same_operator:
  assumes "operator c = Some opr" and "fn c = F_calc"
  shows "mapOperand (opr = Times \<or> opr = Divide) False (Expr c) = Calc_build c"
  using assms by (cases opr) (simp_all add: mapOperand_def Calc_isTerm_def Calc_isFn_def)

lemma chain_flat:
  assumes "xss \<noteq> []"
  shows "operator (foldl (\<lambda>c xs. Calc_new (Expr c # xs) (Some opr) F_calc) r xss) = Some opr
       \<and> fn (foldl (\<lambda>c xs. Calc_new (Expr c # xs) (Some opr) F_calc) r xss) = F_calc
       \<and> Calc_build (foldl (\<lambda>c xs. Calc_new (Expr c # xs) (Some opr) F_calc) r xss) =
           join ('' '' @ operatorText opr @ '' '')
             (map (mapOperand (opr = Times \<or> opr = Divide) False) (Expr r # concat xss))"
  using assms
proof (induction xss rule: rev_induct)
  case Nil
  then show ?case by simp
next
  case (snoc ys xss)
  show ?case
  proof (cases "xss = []")
    case True
    then show ?thesis by (simp add: Calc_new_operator Calc_new_fn Calc_build_new)
  next
    case False
    with snoc.IH show ?thesis
      by (simp add: Calc_new_operator Calc_new_fn Calc_build_new mapOperand_same_operator
          join_flat del: join.simps)
  qed
qed

lemma Calc_toString_chain:
  assumes "xss \<noteq> []"
  shows "Calc_toString (foldl (\<lambda>c xs. Calc_new (Expr c # xs) (Some opr) F_calc) r xss) =
           ''calc('' @ join ('' '' @ operatorText opr @ '' '')
             (map (mapOperand (opr = Times \<or> opr = Divide) False) (Expr r # concat xss)) @ '')''"
  using chain_flat [OF assms, of opr r] by (simp add: Calc_toString_def)

lemma methods_as_new:
  "Calc_add = (\<lambda>c xs. Calc_new (Expr c # xs) (Some Plus) F_calc)"
  "Calc_subtract = (\<lambda>c xs. Calc_new (Expr c # xs) (Some Minus) F_calc)"
  "Calc_multiply = (\<lambda>c xs. Calc_new (Expr c # xs) (Some Times) F_calc)"
  "Calc_divide = (\<lambda>c xs. Calc_new (Expr c # xs) (Some Divide) F_calc)"
  by (auto simp: fun_eq_iff Calc_add_def Calc_subtract_def Calc_multiply_def Calc_divide_def)

text \<open>
  Claim C3. In a node constructed by an arithmetic method, an operand that is a node,
  is not an additive node under \<open>*\<close> or \<open>/\<close> and is not a named-function node, is
  stored as its bare \<open>build()\<close>. Hence a chain of calls of one arithmetic method,
  \<open>r.add(xs1).add(xs2)...\<close>, renders as one \<open>calc(...)\<close> around the flat list of the
  texts of \<open>r\<close> and of all the operands, in order; \<open>calc(1).add(2).add(3)\<close> renders
  \<open>calc(1 + 2 + 3)\<close>.
\<close>

theorem same_operator_chain_flattens:
  "(\<forall>c. i < length ops \<and> ops ! i = Expr c \<and>
         \<not> ((opr = Times \<or> opr = Divide) \<and> Calc_isTerm c) \<and> \<not> Calc_isFn c \<longrightarrow>
         expressions (Calc_new ops (Some opr) F_calc) ! i = Calc_build c)
   \<and> (xss \<noteq> [] \<longrightarrow>
        Calc_toString (foldl Calc_add r xss) =
          ''calc('' @ join '' + '' (map (mapOperand False False) (Expr r # concat xss)) @ '')'' \<and>
        Calc_toString (foldl Calc_subtract r xss) =
          ''calc('' @ join '' - '' (map (mapOperand False False) (Expr r # concat xss)) @ '')'' \<and>
        Calc_toString (foldl Calc_multiply r xss) =
          ''calc('' @ join '' * '' (map (mapOperand True False) (Expr r # concat xss)) @ '')'' \<and>
        Calc_toString (foldl Calc_divide r xss) =
          ''calc('' @ join '' / '' (map (mapOperand True False) (Expr r # concat xss)) @ '')'')
   \<and> Calc_toString (Calc_add (Calc_add (calc (Num (num 1))) [Num (num 2)]) [Num (num 3)])
        = ''calc(1 + 2 + 3)''"
proof -
  have a: "\<forall>c. i < length ops \<and> ops ! i = Expr c \<and>
         \<not> ((opr = Times \<or> opr = Divide) \<and> Calc_isTerm c) \<and> \<not> Calc_isFn c \<longrightarrow>
         expressions (Calc_new ops (Some opr) F_calc) ! i = Calc_build c"
    by (auto simp: Calc_new_nth mapOperand_def)
  have b: "xss \<noteq> [] \<longrightarrow>
        Calc_toString (foldl Calc_add r xss) =
          ''calc('' @ join '' + '' (map (mapOperand False False) (Expr r # concat xss)) @ '')'' \<and>
        Calc_toString (foldl Calc_subtract r xss) =
          ''calc('' @ join '' - '' (map (mapOperand False False) (Expr r # concat xss)) @ '')'' \<and>
        Calc_toString (foldl Calc_multiply r xss) =
          ''calc('' @ join '' * '' (map (mapOperand True False) (Expr r # concat xss)) @ '')'' \<and>
        Calc_toString (foldl Calc_divide r xss) =
          ''calc('' @ join '' / '' (map (mapOperand True False) (Expr r # concat xss)) @ '')''"
    using Calc_toString_chain [of xss Plus r] Calc_toString_chain [of xss Minus r]
      Calc_toString_chain [of xss Times r] Calc_toString_chain [of xss Divide r]
    by (simp add: methods_as_new)
  have c: "Calc_toString (Calc_add (Calc_add (calc (Num (num 1))) [Num (num 2)]) [Num (num 3)])
        = ''calc(1 + 2 + 3)''"
    by code_simp
  show ?thesis using a b c by blast
qed

theorem same_operator_chain_flattens_witness:
  "Calc_toString (foldl Calc_multiply (calc (Num (num 1))) [[Num (num 2)], [Str ''3px'', Num (num 4)]])
     = ''calc(1 * 2 * 3px * 4)''
   \<and> expressions (Calc_new [Expr (Calc_multiply (calc (Num (num 2))) [Num (num 3)])] (Some Plus) F_calc) ! 0
     = ''2 * 3''"
proof -
  let ?xss = "[[Num (num 2)], [Str ''3px'', Num (num 4)]]"
  let ?r = "calc (Num (num 1))"
  let ?c = "Calc_multiply (calc (Num (num 2))) [Num (num 3)]"
  have ne: "?xss \<noteq> []" by simp
  have hyp: "0 < length [Expr ?c] \<and> [Expr ?c] ! 0 = Expr ?c \<and>
         \<not> ((Plus = Times \<or> Plus = Divide) \<and> Calc_isTerm ?c) \<and> \<not> Calc_isFn ?c"
    by (simp add: Calc_isFn_def Calc_multiply_def Calc_new_fn)
  have r1: "''calc('' @ join '' * '' (map (mapOperand True False) (Expr ?r # concat ?xss)) @ '')''
            = ''calc(1 * 2 * 3px * 4)''"
    by code_simp
  have r2: "Calc_build ?c = ''2 * 3''" by code_simp
  have "Calc_toString (foldl Calc_multiply ?r ?xss) =
          ''calc('' @ join '' * '' (map (mapOperand True False) (Expr ?r # concat ?xss)) @ '')''"
    using same_operator_chain_flattens [of 0 "[]" Plus ?xss ?r] ne by blast
  moreover have "expressions (Calc_new [Expr ?c] (Some Plus) F_calc) ! 0 = Calc_build ?c"
    using same_operator_chain_flattens [of 0 "[Expr ?c]" Plus "[]" ?r] hyp by blast
  ultimately show ?thesis by (simp only: r1 r2)
qed

subsection \<open>Operand order\<close>

text \<open>
  Claim C5, as amended. The texts stored in a new node are those of the operand list,
  one per operand and in the order supplied. For \<open>add\<close>, \<open>subtract\<close>, \<open>multiply\<close>,
  \<open>divide\<close> and the named-function methods the operand list is the receiver followed
  by the arguments. For \<open>negate\<close> the operand list is \<open>-1\<close> followed by the
  receiver: the receiver is the second operand, and \<open>negate()\<close> builds the node that
  \<open>calc(-1).multiply(receiver)\<close> builds.
\<close>

theorem operand_order_preserved:
  "expressions (Calc_add this operands) = map (mapOperand False False) (Expr this # operands)
   \<and> expressions (Calc_subtract this operands) = map (mapOperand False False) (Expr this # operands)
   \<and> expressions (Calc_multiply this operands) = map (mapOperand True False) (Expr this # operands)
   \<and> expressions (Calc_divide this operands) = map (mapOperand True False) (Expr this # operands)
   \<and> expressions (Calc_min this operands) = map (mapOperand False True) (Expr this # operands)
   \<and> expressions (Calc_max this operands) = map (mapOperand False True) (Expr this # operands)
   \<and> expressions (Calc_clamp this lo hi) = map (mapOperand False True) [Expr this, lo, hi]
   \<and> expressions (Calc_atan2 this y) = map (mapOperand False True) [Expr this, y]
   \<and> expressions (Calc_pow this y) = map (mapOperand False True) [Expr this, y]
   \<and> expressions (Calc_log this (Some y)) = map (mapOperand False True) [Expr this, y]
   \<and> expressions (Calc_log this None) = map (mapOperand False True) [Expr this]
   \<and> list_all (\<lambda>m. expressions (m this) = map (mapOperand False True) [Expr this])
        [Calc_acos, Calc_asin, Calc_atan, Calc_cos, Calc_sin, Calc_tan, Calc_sqrt, Calc_exp,
         Calc_abs, Calc_round, Calc_ceil, Calc_floor]
   \<and> expressions (Calc_negate this) = map (mapOperand True False) [Num (num (- 1)), Expr this]
   \<and> Calc_negate this = Calc_multiply (calc (Num (num (- 1)))) [Expr this]"
proof -
  have neg: "Calc_negate this = Calc_multiply (calc (Num (num (- 1)))) [Expr this]"
    by (simp add: Calc_negate_def Calc_multiply_def calc_def Calc_new_def Let_def
        Calc_isFactor_def Calc_isFn_def mapOperand_def Calc_isTerm_def Calc_build_def)
  have rest: "expressions (Calc_add this operands) = map (mapOperand False False) (Expr this # operands)
   \<and> expressions (Calc_subtract this operands) = map (mapOperand False False) (Expr this # operands)
   \<and> expressions (Calc_multiply this operands) = map (mapOperand True False) (Expr this # operands)
   \<and> expressions (Calc_divide this operands) = map (mapOperand True False) (Expr this # operands)
   \<and> expressions (Calc_min this operands) = map (mapOperand False True) (Expr this # operands)
   \<and> expressions (Calc_max this operands) = map (mapOperand False True) (Expr this # operands)
   \<and> expressions (Calc_clamp this lo hi) = map (mapOperand False True) [Expr this, lo, hi]
   \<and> expressions (Calc_atan2 this y) = map (mapOperand False True) [Expr this, y]
   \<and> expressions (Calc_pow this y) = map (mapOperand False True) [Expr this, y]
   \<and> expressions (Calc_log this (Some y)) = map (mapOperand False True) [Expr this, y]
   \<and> expressions (Calc_log this None) = map (mapOperand False True) [Expr this]
   \<and> list_all (\<lambda>m. expressions (m this) = map (mapOperand False True) [Expr this])
        [Calc_acos, Calc_asin, Calc_atan, Calc_cos, Calc_sin, Calc_tan, Calc_sqrt, Calc_exp,
         Calc_abs, Calc_round, Calc_ceil, Calc_floor]
   \<and> expressions (Calc_negate this) = map (mapOperand True False) [Num (num (- 1)), Expr this]"
    by (simp add: Calc_new_expressions Calc_add_def Calc_subtract_def Calc_multiply_def
      Calc_divide_def Calc_min_def Calc_max_def Calc_clamp_def Calc_atan2_def Calc_pow_def
      Calc_log_def Calc_acos_def Calc_asin_def Calc_atan_def Calc_cos_def Calc_sin_def
      Calc_tan_def Calc_sqrt_def Calc_exp_def Calc_abs_def Calc_round_def Calc_ceil_def
      Calc_floor_def Calc_negate_def)
  show ?thesis using neg rest by blast
qed

text \<open>
  The claim as stated, that the receiver is the first operand of every node constructed
  from it, fails for \<open>calc(1).negate()\<close>: the first stored text is \<open>-1\<close>, not the
  text of the receiver.
\<close>

theorem negate_receiver_not_first:
  "\<not> (hd (expressions (Calc_negate (calc (Num (num 1)))))
        = mapOperand True False (Expr (calc (Num (num 1)))))"
  by code_simp

subsection \<open>No operands\<close>

text \<open>
  Claim C9. An arithmetic method called with no operands returns a node that stores
  one text, that of the receiver as the constructor's rules give it, and renders as
  \<open>calc(...)\<close> around that text alone: \<open>calc(1).add()\<close> renders \<open>calc(1)\<close>, and
  \<open>calc(1).add(2).multiply()\<close> renders \<open>calc((1 + 2))\<close>.
\<close>

theorem zero_operands_single_text:
  "expressions (Calc_add n []) = [mapOperand False False (Expr n)]
   \<and> expressions (Calc_subtract n []) = [mapOperand False False (Expr n)]
   \<and> expressions (Calc_multiply n []) = [mapOperand True False (Expr n)]
   \<and> expressions (Calc_divide n []) = [mapOperand True False (Expr n)]
   \<and> Calc_toString (Calc_add n []) = ''calc('' @ mapOperand False False (Expr n) @ '')''
   \<and> Calc_toString (Calc_subtract n []) = ''calc('' @ mapOperand False False (Expr n) @ '')''
   \<and> Calc_toString (Calc_multiply n []) = ''calc('' @ mapOperand True False (Expr n) @ '')''
   \<and> Calc_toString (Calc_divide n []) = ''calc('' @ mapOperand True False (Expr n) @ '')''
   \<and> Calc_toString (Calc_add (calc (Num (num 1))) []) = ''calc(1)''
   \<and> Calc_toString (Calc_multiply (Calc_add (calc (Num (num 1))) [Num (num 2)]) [])
        = ''calc((1 + 2))''"
proof -
  have e1: "Calc_toString (Calc_add (calc (Num (num 1))) []) = ''calc(1)''" by code_simp
  have e2: "Calc_toString (Calc_multiply (Calc_add (calc (Num (num 1))) [Num (num 2)]) [])
        = ''calc((1 + 2))''" by code_simp
  have g: "expressions (Calc_add n []) = [mapOperand False False (Expr n)]
   \<and> expressions (Calc_subtract n []) = [mapOperand False False (Expr n)]
   \<and> expressions (Calc_multiply n []) = [mapOperand True False (Expr n)]
   \<and> expressions (Calc_divide n []) = [mapOperand True False (Expr n)]
   \<and> Calc_toString (Calc_add n []) = ''calc('' @ mapOperand False False (Expr n) @ '')''
   \<and> Calc_toString (Calc_subtract n []) = ''calc('' @ mapOperand False False (Expr n) @ '')''
   \<and> Calc_toString (Calc_multiply n []) = ''calc('' @ mapOperand True False (Expr n) @ '')''
   \<and> Calc_toString (Calc_divide n []) = ''calc('' @ mapOperand True False (Expr n) @ '')''"
    by (simp add: Calc_toString_def Calc_build_def Calc_new_expressions Calc_new_operator
        Calc_new_fn Calc_add_def Calc_subtract_def Calc_multiply_def Calc_divide_def)
  show ?thesis using g e1 e2 by blast
qed


section \<open>Properties of the transform builder\<close>

text \<open>
  The text of a node starts with a lower-case letter and ends with a parenthesis, so it
  is no numeric literal: \<open>Number\<close> of a \<open>Calc\<close> operand is \<open>NaN\<close>.
\<close>

lemma trim_id:
  assumes "s \<noteq> []" and "\<not> isWhiteSpace (hd s)" and "\<not> isWhiteSpace (last s)"
  shows "trim s = s"
proof -
  from assms(1,2) have a: "dropWhile isWhiteSpace s = s" by (cases s) simp_all
  from assms(1) obtain ys y where s: "s = ys @ [y]" by (cases s rule: rev_cases) auto
  with assms(3) have "dropWhile isWhiteSpace (rev s) = rev s" by simp
  with a show ?thesis by (simp add: trim_def)
qed

lemma stringToNumber_not_numeric:
  assumes "\<not> isWhiteSpace c" and "\<not> isWhiteSpace (last (c # r))"
    and "c \<notin> set ''0123456789.+-I''"
  shows "stringToNumber (c # r) = NaN"
proof -
  have t: "trim (c # r) = c # r" using assms(1,2) by (intro trim_id) simp_all
  have d: "\<not> isDigit c" using assms(3) by (simp add: isDigit_def)
  have u: "unsignedDecimal (c # r) = None"
    using d assms(3) by (simp add: unsignedDecimal_def Let_def)
  have "signedDecimal (c # r) = NaN"
    using assms(3) u by (auto simp: signedDecimal_def Let_def)
  then show ?thesis using assms(3) by (auto simp: stringToNumber_def t Let_def)
qed

lemma stringToNumber_Calc_toString: "stringToNumber (Calc_toString c) = NaN"
proof -
  obtain a r where f: "fnText (fn c) = a # r" and a: "a \<in> set ''cmastleprf''"
    by (cases "fn c") simp_all
  have "Calc_toString c = a # (r @ ''('' @ Calc_build c @ '')'')"
    by (simp add: Calc_toString_def f)
  moreover have "stringToNumber (a # (r @ ''('' @ Calc_build c @ '')'')) = NaN"
    using a by (intro stringToNumber_not_numeric) (auto simp: isWhiteSpace_def)
  ultimately show ?thesis by simp
qed


lemma coerceValue_cases:
  "(Operand_isZero v \<longrightarrow> coerceValue v unit = ''0'')
   \<and> (\<not> Operand_isZero v \<and> isFinite (Operand_toNumber v) \<longrightarrow>
        coerceValue v unit = numberToString (Operand_toNumber v) @ unit)
   \<and> (isNaN (Operand_toNumber v) \<longrightarrow> coerceValue v unit = Operand_toString v)"
proof -
  have "isNaN (Operand_toNumber v) \<Longrightarrow> \<not> Operand_isZero v"
    by (cases v; cases "Operand_toNumber v") auto
  moreover have "isFinite (Operand_toNumber v) \<Longrightarrow> \<not> isNaN (Operand_toNumber v)"
    by (cases "Operand_toNumber v") auto
  ultimately show ?thesis by (auto simp: coerceValue_def)
qed

lemma coerceValue_Calc: "coerceValue (Expr c) unit = Calc_toString c"
  by (simp add: coerceValue_def stringToNumber_Calc_toString)

lemma stringToNumber_0: "stringToNumber ''0'' = Finite 0 0"
  by code_simp

lemma coerceValue_eq_0:
  assumes "unit = ''px'' \<or> unit = ''deg''"
  shows "coerceValue v unit = ''0'' \<longleftrightarrow> Operand_isZero v"
proof
  assume "Operand_isZero v"
  then show "coerceValue v unit = ''0''" by (simp add: coerceValue_def)
next
  assume r: "coerceValue v unit = ''0''"
  show "Operand_isZero v"
  proof (rule ccontr)
    assume nz: "\<not> Operand_isZero v"
    show False
    proof (cases "isNaN (Operand_toNumber v)")
      case True
      with nz r have ts: "Operand_toString v = ''0''" by (simp add: coerceValue_def)
      show False
      proof (cases v)
        case (Num n)
        with True ts show False by (cases n) simp_all
      next
        case (Str s)
        with True ts show False by (simp add: stringToNumber_0)
      next
        case (Expr c)
        with ts have "length (Calc_toString c) = 1" by simp
        then show False by (simp add: Calc_toString_def)
      qed
    next
      case False
      with nz r have "numberToString (Operand_toNumber v) @ unit = ''0''"
        by (simp add: coerceValue_def)
      then have "last (numberToString (Operand_toNumber v) @ unit) = CHR ''0''" by simp
      with assms show False by auto
    qed
  qed
qed

text \<open>
  Claim C6. In \<open>coerceValue\<close> the number 0 gives \<open>0\<close>; any other value whose
  \<open>Number(...)\<close> is finite gives that number followed by the unit; a value whose
  \<open>Number(...)\<close> is \<open>NaN\<close> gives its own text. Every transform method that takes a
  length coerces it with \<open>px\<close>, every method that takes an angle with \<open>deg\<close> (an
  omitted second argument of \<open>translate\<close> and \<open>skew\<close> is the number 0). So
  \<open>translateX(10)\<close> renders \<open>translateX(10px)\<close>, \<open>translateX(0)\<close> renders
  \<open>translateX(0)\<close> and \<open>translateX("var(--x)")\<close> renders \<open>translateX(var(--x))\<close>.
\<close>

theorem transform_unit_coercion:
  "(Operand_isZero v \<longrightarrow> coerceValue v unit = ''0'')
   \<and> (\<not> Operand_isZero v \<and> isFinite (Operand_toNumber v) \<longrightarrow>
        coerceValue v unit = numberToString (Operand_toNumber v) @ unit)
   \<and> (isNaN (Operand_toNumber v) \<longrightarrow> coerceValue v unit = Operand_toString v)
   \<and> transforms (Transform_perspective this v) =
        transforms this @ [''perspective('' @ coerceValue v ''px'' @ '')'']
   \<and> transforms (Transform_translateX this v) =
        transforms this @ [''translateX('' @ coerceValue v ''px'' @ '')'']
   \<and> transforms (Transform_translateY this v) =
        transforms this @ [''translateY('' @ coerceValue v ''px'' @ '')'']
   \<and> transforms (Transform_translateZ this v) =
        transforms this @ [''translateZ('' @ coerceValue v ''px'' @ '')'']
   \<and> transforms (Transform_translate this v (Some y)) =
        transforms this @
          [''translate('' @ coerceValue v ''px'' @ '', '' @ coerceValue y ''px'' @ '')'']
   \<and> transforms (Transform_translate this v None) =
        transforms this @ [''translate('' @ coerceValue v ''px'' @ '', 0)'']
   \<and> transforms (Transform_translate3d this v y z) =
        transforms this @
          [''translate3d('' @ coerceValue v ''px'' @ '', '' @ coerceValue y ''px'' @ '', '' @
           coerceValue z ''px'' @ '')'']
   \<and> transforms (Transform_rotate this v) =
        transforms this @ [''rotate('' @ coerceValue v ''deg'' @ '')'']
   \<and> transforms (Transform_rotateX this v) =
        transforms this @ [''rotateX('' @ coerceValue v ''deg'' @ '')'']
   \<and> transforms (Transform_rotateY this v) =
        transforms this @ [''rotateY('' @ coerceValue v ''deg'' @ '')'']
   \<and> transforms (Transform_rotateZ this v) =
        transforms this @ [''rotateZ('' @ coerceValue v ''deg'' @ '')'']
   \<and> transforms (Transform_rotate3d this a b c v) =
        transforms this @
          [''rotate3d('' @ numberToString a @ '', '' @ numberToString b @ '', '' @
           numberToString c @ '', '' @ coerceValue v ''deg'' @ '')'']
   \<and> transforms (Transform_skew this v (Some y)) =
        transforms this @
          [''skew('' @ coerceValue v ''deg'' @ '', '' @ coerceValue y ''deg'' @ '')'']
   \<and> transforms (Transform_skew this v None) =
        transforms this @ [''skew('' @ coerceValue v ''deg'' @ '', 0)'']
   \<and> transforms (Transform_skewX this v) =
        transforms this @ [''skewX('' @ coerceValue v ''deg'' @ '')'']
   \<and> transforms (Transform_skewY this v) =
        transforms this @ [''skewY('' @ coerceValue v ''deg'' @ '')'']
   \<and> Transform_toString (Transform_translateX transform (Num (num 10))) = ''translateX(10px)''
   \<and> Transform_toString (Transform_translateX transform (Num (num 0))) = ''translateX(0)''
   \<and> Transform_toString (Transform_translateX transform (Str ''var(--x)''))
        = ''translateX(var(--x))''"
proof -
  have z: "coerceValue (Num (num 0)) u = ''0''" for u
    by (simp add: coerceValue_def num_def)
  have m: "transforms (Transform_perspective this v) =
        transforms this @ [''perspective('' @ coerceValue v ''px'' @ '')'']
   \<and> transforms (Transform_translateX this v) =
        transforms this @ [''translateX('' @ coerceValue v ''px'' @ '')'']
   \<and> transforms (Transform_translateY this v) =
        transforms this @ [''translateY('' @ coerceValue v ''px'' @ '')'']
   \<and> transforms (Transform_translateZ this v) =
        transforms this @ [''translateZ('' @ coerceValue v ''px'' @ '')'']
   \<and> transforms (Transform_translate this v (Some y)) =
        transforms this @
          [''translate('' @ coerceValue v ''px'' @ '', '' @ coerceValue y ''px'' @ '')'']
   \<and> transforms (Transform_translate this v None) =
        transforms this @ [''translate('' @ coerceValue v ''px'' @ '', 0)'']
   \<and> transforms (Transform_translate3d this v y z) =
        transforms this @
          [''translate3d('' @ coerceValue v ''px'' @ '', '' @ coerceValue y ''px'' @ '', '' @
           coerceValue z ''px'' @ '')'']
   \<and> transforms (Transform_rotate this v) =
        transforms this @ [''rotate('' @ coerceValue v ''deg'' @ '')'']
   \<and> transforms (Transform_rotateX this v) =
        transforms this @ [''rotateX('' @ coerceValue v ''deg'' @ '')'']
   \<and> transforms (Transform_rotateY this v) =
        transforms this @ [''rotateY('' @ coerceValue v ''deg'' @ '')'']
   \<and> transforms (Transform_rotateZ this v) =
        transforms this @ [''rotateZ('' @ coerceValue v ''deg'' @ '')'']
   \<and> transforms (Transform_rotate3d this a b c v) =
        transforms this @
          [''rotate3d('' @ numberToString a @ '', '' @ numberToString b @ '', '' @
           numberToString c @ '', '' @ coerceValue v ''deg'' @ '')'']
   \<and> transforms (Transform_skew this v (Some y)) =
        transforms this @
          [''skew('' @ coerceValue v ''deg'' @ '', '' @ coerceValue y ''deg'' @ '')'']
   \<and> transforms (Transform_skew this v None) =
        transforms this @ [''skew('' @ coerceValue v ''deg'' @ '', 0)'']
   \<and> transforms (Transform_skewX this v) =
        transforms this @ [''skewX('' @ coerceValue v ''deg'' @ '')'']
   \<and> transforms (Transform_skewY this v) =
        transforms this @ [''skewY('' @ coerceValue v ''deg'' @ '')'']"
    by (simp add: z Transform_perspective_def Transform_translateX_def Transform_translateY_def
        Transform_translateZ_def Transform_translate_def Transform_translate3d_def
        Transform_rotate_def Transform_rotateX_def Transform_rotateY_def Transform_rotateZ_def
        Transform_rotate3d_def Transform_skew_def Transform_skewX_def Transform_skewY_def)
  have e1: "Transform_toString (Transform_translateX transform (Num (num 10)))
      = ''translateX(10px)''" by code_simp
  have e2: "Transform_toString (Transform_translateX transform (Num (num 0)))
      = ''translateX(0)''" by code_simp
  have e3: "Transform_toString (Transform_translateX transform (Str ''var(--x)''))
        = ''translateX(var(--x))''" by code_simp
  show ?thesis using coerceValue_cases [of v unit] m e1 e2 e3 by blast
qed

theorem transform_unit_coercion_witness:
  "coerceValue (Str ''12.5'') ''deg'' = ''12.5deg''
   \<and> coerceValue (Str ''var(--x)'') ''px'' = ''var(--x)''
   \<and> coerceValue (Num (Finite 0 3)) ''px'' = ''0''"
proof -
  have f: "\<not> Operand_isZero (Str ''12.5'') \<and> isFinite (Operand_toNumber (Str ''12.5''))"
    by code_simp
  have ft: "numberToString (Operand_toNumber (Str ''12.5'')) @ ''deg'' = ''12.5deg''"
    by code_simp
  have n: "isNaN (Operand_toNumber (Str ''var(--x)''))" by code_simp
  have z: "Operand_isZero (Num (Finite 0 3))" by simp
  have "coerceValue (Str ''12.5'') ''deg''
          = numberToString (Operand_toNumber (Str ''12.5'')) @ ''deg''"
    using transform_unit_coercion [of "Str ''12.5''" "''deg''"] f by blast
  moreover have "coerceValue (Str ''var(--x)'') ''px'' = Operand_toString (Str ''var(--x)'')"
    using transform_unit_coercion [of "Str ''var(--x)''" "''px''"] n by blast
  moreover have "coerceValue (Num (Finite 0 3)) ''px'' = ''0''"
    using transform_unit_coercion [of "Num (Finite 0 3)" "''px''"] z by blast
  ultimately show ?thesis by (simp only: ft Operand_toString.simps)
qed

text \<open>
  Claim C10. With the unit \<open>px\<close> or \<open>deg\<close>, \<open>coerceValue\<close> gives the bare \<open>0\<close>
  exactly for the number 0. The string \<open>"0"\<close> is not the number 0; it converts to the
  number 0 and gets the unit: \<open>translateX("0")\<close> renders \<open>translateX(0px)\<close>, while
  \<open>translateX(0)\<close> renders \<open>translateX(0)\<close>.
\<close>

theorem only_number_zero_is_bare:
  "(coerceValue v ''px'' = ''0'' \<longleftrightarrow> Operand_isZero v)
   \<and> (coerceValue v ''deg'' = ''0'' \<longleftrightarrow> Operand_isZero v)
   \<and> \<not> Operand_isZero (Str ''0'')
   \<and> Operand_toNumber (Str ''0'') = Finite 0 0
   \<and> Transform_toString (Transform_translateX transform (Str ''0'')) = ''translateX(0px)''
   \<and> Transform_toString (Transform_translateX transform (Num (num 0))) = ''translateX(0)''"
proof -
  have e1: "Transform_toString (Transform_translateX transform (Str ''0'')) = ''translateX(0px)''"
    by code_simp
  have e2: "Transform_toString (Transform_translateX transform (Num (num 0)))
      = ''translateX(0)''" by code_simp
  show ?thesis
    using coerceValue_eq_0 [of "''px''" v] coerceValue_eq_0 [of "''deg''" v] e1 e2
    by (simp add: stringToNumber_0)
qed


section \<open>Properties of the transition and animation builders\<close>

subsection \<open>Rendering reads only the objects a builder refers to\<close>

lemma Transition_toString_frame:
  assumes "\<forall>r \<in> set (Transition_refs t). objects h r = objects h' r"
  shows "Transition_toString h t = Transition_toString h' t"
  using assms
proof (induction t)
  case (Transition props c others)
  have m: "map (Transition_toString h) others = map (Transition_toString h') others"
    using Transition by (intro map_cong) auto
  show ?case using Transition.prems by (simp add: Let_def m)
qed

lemma Animation_toString_frame:
  assumes "\<forall>r \<in> set (Animation_refs a). objects h r = objects h' r"
  shows "Animation_toString h a = Animation_toString h' a"
  using assms
proof (induction a)
  case (Animation kfs c others)
  have m: "map (Animation_toString h) others = map (Animation_toString h') others"
    using Animation by (intro map_cong) auto
  show ?case using Animation.prems by (simp add: Let_def m)
qed

lemma Transition_toString_unfold:
  "Transition_toString h t =
     join '', ''
       (join '', '' (map (\<lambda>property. property @ '' '' @ Transition_cfg (objects h (configuration t)))
                      (properties t))
        # map (Transition_toString h) (otherTransitions t))"
  by (cases t) (simp add: Let_def)

lemma Animation_toString_unfold:
  "Animation_toString h a =
     join '', ''
       (join '', '' (map (\<lambda>keyframe. Animation_cfg (objects h (configurationA a)) @ '' '' @ keyframe)
                      (keyframes a))
        # map (Animation_toString h) (otherAnimations a))"
  by (cases a) (simp add: Let_def)

lemma builderRef_mono: "builderRef h r \<Longrightarrow> nextRef h \<le> nextRef h' \<Longrightarrow> builderRef h' r"
  by (auto simp: builderRef_def)

lemma Object_assign_frame:
  "r \<noteq> target \<Longrightarrow> objects (Object_assign target source h) r = objects h r"
  "nextRef (Object_assign target source h) = nextRef h"
  "objects (Object_assign target source h) target = objects h target ++ source"
  by (simp_all add: Object_assign_def)

lemma alloc_frame:
  "alloc obj h = (r, h') \<Longrightarrow>
     r = nextRef h \<and> nextRef h' = Suc (nextRef h) \<and> objects h' r = obj \<and>
     (\<forall>q. q \<noteq> r \<longrightarrow> objects h' q = objects h q)"
  by (auto simp: alloc_def)

lemma transitionConfigDefaults_toString:
  assumes "Transition_built h t"
  shows "Transition_toString (transitionConfigDefaults nc h) t = Transition_toString h t"
  using assms
  by (intro Transition_toString_frame)
     (auto simp: Transition_built_def list_all_iff builderRef_def transitionConfigDefaults_def
        Object_assign_frame)

lemma animationConfigDefaults_toString:
  assumes "Animation_built h a"
  shows "Animation_toString (animationConfigDefaults nc h) a = Animation_toString h a"
  using assms
  by (intro Animation_toString_frame)
     (auto simp: Animation_built_def list_all_iff builderRef_def animationConfigDefaults_def
        Object_assign_frame)

lemma transition_result:
  assumes "heap_ok h" and "transition props h = (t, h')"
  shows "t = Transition props (nextRef h) [] \<and> objects h' (configuration t) = objects h defaultConfig
       \<and> configuration t \<noteq> defaultConfig \<and> Transition_built h' t \<and> heap_ok h'
       \<and> nextRef h' = Suc (nextRef h)
       \<and> (\<forall>q. q \<noteq> nextRef h \<longrightarrow> objects h' q = objects h q)"
  using assms
  by (auto simp: transition_def alloc_def heap_ok_def Transition_built_def builderRef_def)

lemma animation_result:
  assumes "heap_ok h" and "animation kfs h = (a, h')"
  shows "a = Animation kfs (nextRef h) [] \<and> objects h' (configurationA a) = objects h config
       \<and> configurationA a \<noteq> config \<and> Animation_built h' a \<and> heap_ok h'
       \<and> nextRef h' = Suc (nextRef h)
       \<and> (\<forall>q. q \<noteq> nextRef h \<longrightarrow> objects h' q = objects h q)"
  using assms
  by (auto simp: animation_def alloc_def heap_ok_def Animation_built_def builderRef_def)

lemma initialHeap_ok: "heap_ok initialHeap"
  by (simp add: heap_ok_def initialHeap_def defaultConfig_def config_def)

lemma Transition_built_mono:
  "Transition_built h t \<Longrightarrow> nextRef h \<le> nextRef h' \<Longrightarrow> Transition_built h' t"
  by (auto simp: Transition_built_def list_all_iff intro: builderRef_mono)

lemma Animation_built_mono:
  "Animation_built h t \<Longrightarrow> nextRef h \<le> nextRef h' \<Longrightarrow> Animation_built h' t"
  by (auto simp: Animation_built_def list_all_iff intro: builderRef_mono)

lemma Transition_built_alloc_toString:
  assumes "Transition_built h t" and "alloc obj h = (r, h')"
  shows "Transition_toString h' t = Transition_toString h t"
  using assms
  by (intro Transition_toString_frame)
     (auto simp: Transition_built_def list_all_iff builderRef_def alloc_def)

lemma Animation_built_alloc_toString:
  assumes "Animation_built h t" and "alloc obj h = (r, h')"
  shows "Animation_toString h' t = Animation_toString h t"
  using assms
  by (intro Animation_toString_frame)
     (auto simp: Animation_built_def list_all_iff builderRef_def alloc_def)

lemma Transition_built_simps:
  "Transition_built h (Transition props c others) =
     (builderRef h c \<and> list_all (Transition_built h) others)"
  by (auto simp: Transition_built_def list_all_iff)

lemma Animation_built_simps:
  "Animation_built h (Animation props c others) =
     (builderRef h c \<and> list_all (Animation_built h) others)"
  by (auto simp: Animation_built_def list_all_iff)

lemma Transition_and_built:
  "Transition_built h this \<Longrightarrow> list_all (Transition_built h) ts \<Longrightarrow>
   Transition_built h (Transition_and this ts)"
  by (cases this) (simp add: Transition_and_def Transition_built_simps)

lemma Animation_and_built:
  "Animation_built h this \<Longrightarrow> list_all (Animation_built h) ts \<Longrightarrow>
   Animation_built h (Animation_and this ts)"
  by (cases this) (simp add: Animation_and_def Animation_built_simps)

text \<open>
  A setter allocates one object: the builder it returns refers to builder objects only,
  and the defaults objects stay out of reach of the allocator.
\<close>

lemma setter_built:
  assumes "heap_ok h" and "Transition_built h this"
    and "alloc obj h = (r, h')"
  shows "Transition_built h' (Transition (properties this) r (otherTransitions this))
       \<and> heap_ok h'"
proof -
  from assms(3) have n: "nextRef h' = Suc (nextRef h)" and r: "r = nextRef h"
    by (auto simp: alloc_def)
  from assms(2) have "list_all (Transition_built h) (otherTransitions this)"
    by (cases this) (simp add: Transition_built_simps)
  then have "list_all (Transition_built h') (otherTransitions this)"
    using n by (auto simp: list_all_iff intro: Transition_built_mono)
  moreover have "builderRef h' r" using assms(1) n r by (auto simp: builderRef_def heap_ok_def)
  moreover have "heap_ok h'" using assms(1) n by (auto simp: heap_ok_def)
  ultimately show ?thesis by (simp add: Transition_built_simps)
qed

lemma setterA_built:
  assumes "heap_ok h" and "Animation_built h this"
    and "alloc obj h = (r, h')"
  shows "Animation_built h' (Animation (keyframes this) r (otherAnimations this))
       \<and> heap_ok h'"
proof -
  from assms(3) have n: "nextRef h' = Suc (nextRef h)" and r: "r = nextRef h"
    by (auto simp: alloc_def)
  from assms(2) have "list_all (Animation_built h) (otherAnimations this)"
    by (cases this) (simp add: Animation_built_simps)
  then have "list_all (Animation_built h') (otherAnimations this)"
    using n by (auto simp: list_all_iff intro: Animation_built_mono)
  moreover have "builderRef h' r" using assms(1) n r by (auto simp: builderRef_def heap_ok_def)
  moreover have "heap_ok h'" using assms(1) n by (auto simp: heap_ok_def)
  ultimately show ?thesis by (simp add: Animation_built_simps)
qed

lemma Transition_methods_built:
  assumes "heap_ok h" and "Transition_built h this"
  shows "Transition_built (snd (Transition_duration this v h)) (fst (Transition_duration this v h))"
    "heap_ok (snd (Transition_duration this v h))"
    "Transition_built (snd (Transition_timingFunction this v h)) (fst (Transition_timingFunction this v h))"
    "heap_ok (snd (Transition_timingFunction this v h))"
    "Transition_built (snd (Transition_delay this v h)) (fst (Transition_delay this v h))"
    "heap_ok (snd (Transition_delay this v h))"
  using setter_built [OF assms]
  by (auto simp: Transition_duration_def Transition_timingFunction_def Transition_delay_def
      split: prod.split)

lemma Animation_methods_built:
  assumes "heap_ok h" and "Animation_built h this"
  shows "Animation_built (snd (Animation_duration this v h)) (fst (Animation_duration this v h))"
    "heap_ok (snd (Animation_duration this v h))"
    "Animation_built (snd (Animation_timingFunction this v h)) (fst (Animation_timingFunction this v h))"
    "heap_ok (snd (Animation_timingFunction this v h))"
    "Animation_built (snd (Animation_delay this v h)) (fst (Animation_delay this v h))"
    "heap_ok (snd (Animation_delay this v h))"
    "Animation_built (snd (Animation_iterationCount this v h)) (fst (Animation_iterationCount this v h))"
    "heap_ok (snd (Animation_iterationCount this v h))"
    "Animation_built (snd (Animation_direction this v h)) (fst (Animation_direction this v h))"
    "heap_ok (snd (Animation_direction this v h))"
    "Animation_built (snd (Animation_fillMode this v h)) (fst (Animation_fillMode this v h))"
    "heap_ok (snd (Animation_fillMode this v h))"
    "Animation_built (snd (Animation_playState this v h)) (fst (Animation_playState this v h))"
    "heap_ok (snd (Animation_playState this v h))"
  using setterA_built [OF assms]
  by (auto simp: Animation_duration_def Animation_timingFunction_def Animation_delay_def
      Animation_iterationCount_def Animation_direction_def Animation_fillMode_def
      Animation_playState_def split: prod.split)

lemma builderRef_Object_assign: "builderRef (Object_assign target source h) = builderRef h"
  by (simp add: fun_eq_iff builderRef_def Object_assign_def)

lemma defaults_built:
  "Transition_built (transitionConfigDefaults nc h) t = Transition_built h t"
  "Transition_built (animationConfigDefaults nc h) t = Transition_built h t"
  "Animation_built (transitionConfigDefaults nc h) a = Animation_built h a"
  "Animation_built (animationConfigDefaults nc h) a = Animation_built h a"
  "heap_ok (transitionConfigDefaults nc h) = heap_ok h"
  "heap_ok (animationConfigDefaults nc h) = heap_ok h"
  by (simp_all add: Transition_built_def Animation_built_def builderRef_Object_assign
      heap_ok_def transitionConfigDefaults_def animationConfigDefaults_def Object_assign_frame)

lemma getProp_map_add:
  "getProp (m ++ nc) k = (case nc k of None \<Rightarrow> getProp m k | Some v \<Rightarrow> v)"
  by (simp add: getProp_def map_add_def split: option.split)

lemma transition_after:
  "Transition_toString (snd (transition props h)) (fst (transition props h)) =
     join '', '' (map (\<lambda>property. property @ '' '' @ Transition_cfg (objects h defaultConfig)) props)"
  by (simp add: transition_def alloc_def Let_def)

lemma animation_after:
  "Animation_toString (snd (animation kfs h)) (fst (animation kfs h)) =
     join '', '' (map (\<lambda>keyframe. Animation_cfg (objects h config) @ '' '' @ keyframe) kfs)"
  by (simp add: animation_def alloc_def Let_def)

subsection \<open>The shape of the rendered text\<close>

text \<open>
  Claim C4, as amended. A transition builder renders, for each tracked property, the
  property name followed by the configuration text; an animation builder renders, for
  each tracked keyframe name, the configuration text followed by the keyframe name. In
  both, the pairs are joined with a comma, and the result is joined with the rendered
  text of each builder composed into it, in order; \<open>and\<close> appends the builders it is
  given to the composed ones. The configuration text is the truthy configuration fields,
  in their fixed order, joined with a space.
\<close>

theorem builders_toString_shape:
  "Transition_toString h t =
     join '', ''
       (join '', '' (map (\<lambda>property. property @ '' '' @ Transition_cfg (objects h (configuration t)))
                      (properties t))
        # map (Transition_toString h) (otherTransitions t))
   \<and> Animation_toString h a =
     join '', ''
       (join '', '' (map (\<lambda>keyframe. Animation_cfg (objects h (configurationA a)) @ '' '' @ keyframe)
                      (keyframes a))
        # map (Animation_toString h) (otherAnimations a))
   \<and> Transition_toString h (Transition_and t ts) =
     join '', ''
       (join '', '' (map (\<lambda>property. property @ '' '' @ Transition_cfg (objects h (configuration t)))
                      (properties t))
        # map (Transition_toString h) (otherTransitions t) @ map (Transition_toString h) ts)
   \<and> Animation_toString h (Animation_and a as) =
     join '', ''
       (join '', '' (map (\<lambda>keyframe. Animation_cfg (objects h (configurationA a)) @ '' '' @ keyframe)
                      (keyframes a))
        # map (Animation_toString h) (otherAnimations a) @ map (Animation_toString h) as)
   \<and> Transition_toString (snd (transition [''opacity'', ''transform''] initialHeap))
        (fst (transition [''opacity'', ''transform''] initialHeap))
      = ''opacity 300ms cubic-bezier(0.4, 0, 0.2, 1), transform 300ms cubic-bezier(0.4, 0, 0.2, 1)''
   \<and> Animation_toString (snd (animation [''keyframe1'', ''keyframe2''] initialHeap))
        (fst (animation [''keyframe1'', ''keyframe2''] initialHeap))
      = ''300ms cubic-bezier(0.4, 0, 0.2, 1) keyframe1, 300ms cubic-bezier(0.4, 0, 0.2, 1) keyframe2''"
proof -
  have e1: "Transition_toString (snd (transition [''opacity'', ''transform''] initialHeap))
        (fst (transition [''opacity'', ''transform''] initialHeap))
      = ''opacity 300ms cubic-bezier(0.4, 0, 0.2, 1), transform 300ms cubic-bezier(0.4, 0, 0.2, 1)''"
    by code_simp
  have e2: "Animation_toString (snd (animation [''keyframe1'', ''keyframe2''] initialHeap))
        (fst (animation [''keyframe1'', ''keyframe2''] initialHeap))
      = ''300ms cubic-bezier(0.4, 0, 0.2, 1) keyframe1, 300ms cubic-bezier(0.4, 0, 0.2, 1) keyframe2''"
    by code_simp
  show ?thesis
    using Transition_toString_unfold [of h t] Animation_toString_unfold [of h a]
      Transition_toString_unfold [of h "Transition_and t ts"]
      Animation_toString_unfold [of h "Animation_and a as"] e1 e2
    by (simp add: Transition_and_def Animation_and_def)
qed

text \<open>
  The claim as stated puts the tracked name first for animations too. For
  \<open>animation('fade')\<close> with the initial defaults the rendered text is not the name
  followed by the configuration text.
\<close>

theorem animation_pair_not_name_first:
  "Animation_toString (snd (animation [''fade''] initialHeap)) (fst (animation [''fade''] initialHeap))
   \<noteq> ''fade'' @ '' '' @
       Animation_cfg (objects (snd (animation [''fade''] initialHeap))
                        (configurationA (fst (animation [''fade''] initialHeap))))"
  by code_simp

subsection \<open>Durations and delays\<close>

lemma coerceToTime_cases:
  "(\<forall>n. \<not> isNaN n \<longrightarrow> coerceToTime (VNum n) None = VStr (numberToString n @ ''ms''))
   \<and> coerceToTime (VNum NaN) None = VNum NaN
   \<and> (\<forall>s. isFinite (stringToNumber s) \<longrightarrow>
         coerceToTime (VStr s) None = VStr (numberToString (stringToNumber s) @ ''ms''))
   \<and> (\<forall>s. isNaN (stringToNumber s) \<longrightarrow> coerceToTime (VStr s) None = VStr s)"
proof -
  have "isFinite x \<Longrightarrow> \<not> isNaN x" for x by (cases x) simp_all
  then show ?thesis
    by (auto simp: coerceToTime_def coerceToUnit_def DEFAULT_TIME_UNIT_def Let_def)
qed

lemma setters_store:
  "getProp (objects (snd (Transition_duration t d h)) (configuration (fst (Transition_duration t d h))))
      ''transitionDuration'' = coerceToTime d None"
  "getProp (objects (snd (Transition_delay t d h)) (configuration (fst (Transition_delay t d h))))
      ''transitionDelay'' = coerceToTime d None"
  "getProp (objects (snd (Animation_duration a d h)) (configurationA (fst (Animation_duration a d h))))
      ''animationDuration'' = coerceToTime d None"
  "getProp (objects (snd (Animation_delay a d h)) (configurationA (fst (Animation_delay a d h))))
      ''animationDelay'' = coerceToTime d None"
  by (simp_all add: Transition_duration_def Transition_delay_def Animation_duration_def
      Animation_delay_def alloc_def getProp_def)

text \<open>
  Claim C7, as amended. \<open>duration(d)\<close> and \<open>delay(d)\<close>, of a transition and of an
  animation, store \<open>coerceToTime(d)\<close> in the configuration object of the builder they
  return. For a number that is not \<open>NaN\<close> this is the number followed by \<open>ms\<close>; the
  number \<open>NaN\<close> is returned as it is. For a string whose \<open>Number(...)\<close> is finite it
  is that number followed by \<open>ms\<close>, so \<open>"-5"\<close> gives \<open>-5ms\<close>; a string whose
  \<open>Number(...)\<close> is \<open>NaN\<close> is returned as it is.
\<close>

theorem duration_delay_coercion:
  "getProp (objects (snd (Transition_duration t d h))
             (configuration (fst (Transition_duration t d h)))) ''transitionDuration''
     = coerceToTime d None
   \<and> getProp (objects (snd (Transition_delay t d h))
             (configuration (fst (Transition_delay t d h)))) ''transitionDelay''
     = coerceToTime d None
   \<and> getProp (objects (snd (Animation_duration a d h))
             (configurationA (fst (Animation_duration a d h)))) ''animationDuration''
     = coerceToTime d None
   \<and> getProp (objects (snd (Animation_delay a d h))
             (configurationA (fst (Animation_delay a d h)))) ''animationDelay''
     = coerceToTime d None
   \<and> (\<forall>n. \<not> isNaN n \<longrightarrow> coerceToTime (VNum n) None = VStr (numberToString n @ ''ms''))
   \<and> coerceToTime (VNum NaN) None = VNum NaN
   \<and> (\<forall>s. isFinite (stringToNumber s) \<longrightarrow>
         coerceToTime (VStr s) None = VStr (numberToString (stringToNumber s) @ ''ms''))
   \<and> (\<forall>s. isNaN (stringToNumber s) \<longrightarrow> coerceToTime (VStr s) None = VStr s)
   \<and> coerceToTime (VStr ''-5'') None = VStr ''-5ms''"
proof -
  have e: "coerceToTime (VStr ''-5'') None = VStr ''-5ms''" by code_simp
  show ?thesis using coerceToTime_cases e by (simp add: setters_store)
qed

theorem duration_delay_coercion_witness:
  "coerceToTime (VNum (Finite 25 (- 1))) None = VStr ''2.5ms''
   \<and> coerceToTime (VStr ''1.50'') None = VStr ''1.5ms''
   \<and> coerceToTime (VStr ''1s'') None = VStr ''1s''"
proof -
  have n: "\<not> isNaN (Finite 25 (- 1))" by simp
  have f: "isFinite (stringToNumber ''1.50'')" by code_simp
  have x: "isNaN (stringToNumber ''1s'')" by code_simp
  have r1: "numberToString (Finite 25 (- 1)) @ ''ms'' = ''2.5ms''" by code_simp
  have r2: "numberToString (stringToNumber ''1.50'') @ ''ms'' = ''1.5ms''" by code_simp
  have "coerceToTime (VNum (Finite 25 (- 1))) None
          = VStr (numberToString (Finite 25 (- 1)) @ ''ms'')"
    using duration_delay_coercion n by blast
  moreover have "coerceToTime (VStr ''1.50'') None
          = VStr (numberToString (stringToNumber ''1.50'') @ ''ms'')"
    using duration_delay_coercion f by blast
  moreover have "coerceToTime (VStr ''1s'') None = VStr ''1s''"
    using duration_delay_coercion x by blast
  ultimately show ?thesis by (simp only: r1 r2)
qed

text \<open>
  The claim as stated has every number stored with \<open>ms\<close> appended. For
  \<open>transition('opacity').duration(NaN)\<close> the stored duration is not \<open>NaNms\<close>.
\<close>

theorem duration_NaN_stored_unchanged:
  "getProp (objects (snd (Transition_duration (fst (transition [''opacity''] initialHeap))
                            (VNum NaN) (snd (transition [''opacity''] initialHeap))))
             (configuration (fst (Transition_duration (fst (transition [''opacity''] initialHeap))
                            (VNum NaN) (snd (transition [''opacity''] initialHeap))))))
     ''transitionDuration''
   \<noteq> VStr (numberToString NaN @ ''ms'')"
  by code_simp

subsection \<open>Overriding the defaults\<close>

text \<open>
  Claim C8. \<open>transitionConfigDefaults\<close> and \<open>animationConfigDefaults\<close> overwrite, in
  the defaults object of their module, exactly the properties the argument has. A builder
  made by \<open>transition\<close> or \<open>animation\<close> refers to a new object that holds what the
  defaults hold at that moment. So the rendered text of a builder that exists when the
  defaults are overridden does not change, and a builder made afterwards renders the
  merged defaults.
\<close>

theorem defaults_override_frame:
  "(\<forall>k. getProp (objects (transitionConfigDefaults nc h) defaultConfig) k =
          (case nc k of None \<Rightarrow> getProp (objects h defaultConfig) k | Some v \<Rightarrow> v))
   \<and> (\<forall>k. getProp (objects (animationConfigDefaults nc h) config) k =
          (case nc k of None \<Rightarrow> getProp (objects h config) k | Some v \<Rightarrow> v))
   \<and> objects (snd (transition props h)) (configuration (fst (transition props h)))
        = objects h defaultConfig
   \<and> objects (snd (animation props h)) (configurationA (fst (animation props h)))
        = objects h config
   \<and> (heap_ok h \<longrightarrow>
        Transition_built (snd (transition props h)) (fst (transition props h)) \<and>
        Animation_built (snd (animation props h)) (fst (animation props h)))
   \<and> (Transition_built h t \<longrightarrow>
        Transition_toString (transitionConfigDefaults nc h) t = Transition_toString h t)
   \<and> (Animation_built h a \<longrightarrow>
        Animation_toString (animationConfigDefaults nc h) a = Animation_toString h a)
   \<and> Transition_toString (snd (transition props (transitionConfigDefaults nc h)))
        (fst (transition props (transitionConfigDefaults nc h))) =
      join '', '' (map (\<lambda>property. property @ '' '' @
                         Transition_cfg (objects h defaultConfig ++ nc)) props)
   \<and> Animation_toString (snd (animation props (animationConfigDefaults nc h)))
        (fst (animation props (animationConfigDefaults nc h))) =
      join '', '' (map (\<lambda>keyframe. Animation_cfg (objects h config ++ nc) @ '' '' @
                         keyframe) props)"
proof -
  have a: "\<forall>k. getProp (objects (transitionConfigDefaults nc h) defaultConfig) k =
          (case nc k of None \<Rightarrow> getProp (objects h defaultConfig) k | Some v \<Rightarrow> v)"
    by (simp add: transitionConfigDefaults_def Object_assign_frame getProp_map_add)
  have b: "\<forall>k. getProp (objects (animationConfigDefaults nc h) config) k =
          (case nc k of None \<Rightarrow> getProp (objects h config) k | Some v \<Rightarrow> v)"
    by (simp add: animationConfigDefaults_def Object_assign_frame getProp_map_add)
  have c: "objects (snd (transition props h)) (configuration (fst (transition props h)))
        = objects h defaultConfig"
    by (simp add: transition_def alloc_def)
  have d: "objects (snd (animation props h)) (configurationA (fst (animation props h)))
        = objects h config"
    by (simp add: animation_def alloc_def)
  have e: "heap_ok h \<longrightarrow>
        Transition_built (snd (transition props h)) (fst (transition props h)) \<and>
        Animation_built (snd (animation props h)) (fst (animation props h))"
    using transition_result [of h props] animation_result [of h props]
    by (metis prod.collapse)
  have f: "Transition_toString (snd (transition props (transitionConfigDefaults nc h)))
        (fst (transition props (transitionConfigDefaults nc h))) =
      join '', '' (map (\<lambda>property. property @ '' '' @
                         Transition_cfg (objects h defaultConfig ++ nc)) props)"
    by (simp add: transition_after transitionConfigDefaults_def Object_assign_frame)
  have g: "Animation_toString (snd (animation props (animationConfigDefaults nc h)))
        (fst (animation props (animationConfigDefaults nc h))) =
      join '', '' (map (\<lambda>keyframe. Animation_cfg (objects h config ++ nc) @ '' '' @
                         keyframe) props)"
    by (simp add: animation_after animationConfigDefaults_def Object_assign_frame)
  show ?thesis
    using a b c d e f g transitionConfigDefaults_toString [of h t nc]
      animationConfigDefaults_toString [of h a nc]
    by blast
qed

theorem defaults_override_frame_witness:
  "Transition_toString
     (transitionConfigDefaults [''transitionDuration'' \<mapsto> VStr ''1s'']
        (snd (transition [''opacity''] initialHeap)))
     (fst (transition [''opacity''] initialHeap))
     = ''opacity 300ms cubic-bezier(0.4, 0, 0.2, 1)''
   \<and> Animation_toString
     (animationConfigDefaults [''animationDuration'' \<mapsto> VStr ''1s'']
        (snd (animation [''fade''] initialHeap)))
     (fst (animation [''fade''] initialHeap))
     = ''300ms cubic-bezier(0.4, 0, 0.2, 1) fade''
   \<and> Transition_built (snd (transition [''opacity''] initialHeap))
        (fst (transition [''opacity''] initialHeap))"
proof -
  let ?h = "snd (transition [''opacity''] initialHeap)"
  let ?t = "fst (transition [''opacity''] initialHeap)"
  let ?g = "snd (animation [''fade''] initialHeap)"
  let ?a = "fst (animation [''fade''] initialHeap)"
  have bt: "Transition_built ?h ?t"
    using defaults_override_frame [of _ initialHeap "[''opacity'']"] initialHeap_ok by blast
  have ba: "Animation_built ?g ?a"
    using defaults_override_frame [of _ initialHeap "[''fade'']"] initialHeap_ok by blast
  have t0: "Transition_toString ?h ?t = ''opacity 300ms cubic-bezier(0.4, 0, 0.2, 1)''"
    by code_simp
  have a0: "Animation_toString ?g ?a = ''300ms cubic-bezier(0.4, 0, 0.2, 1) fade''"
    by code_simp
  have "Transition_toString
          (transitionConfigDefaults [''transitionDuration'' \<mapsto> VStr ''1s''] ?h) ?t
        = Transition_toString ?h ?t"
    using defaults_override_frame [of "[''transitionDuration'' \<mapsto> VStr ''1s'']" ?h _ ?t] bt by blast
  moreover have "Animation_toString
          (animationConfigDefaults [''animationDuration'' \<mapsto> VStr ''1s''] ?g) ?a
        = Animation_toString ?g ?a"
    using defaults_override_frame [of "[''animationDuration'' \<mapsto> VStr ''1s'']" ?g _ _ ?a] ba by blast
  ultimately show ?thesis using bt by (simp only: t0 a0) 
qed

end
